theory Spec2Isabelle
  imports Main
begin

section \<open>Python values used by the handlers\<close>

text \<open>
  A Python \<open>str\<close> is modelled as a \<open>string\<close>: one \<open>char\<close> per code point, so the
  model covers the strings whose code points lie below 256 and \<open>length\<close> is Python's
  \<open>len\<close>. The character classes below are Python's on that range.

  Localised texts are kept symbolic: \<open>i18n.gettext(lang, key, **kwargs)\<close> is the term
  \<open>Get_text key kwargs\<close> (the language is fixed during one handler run), a plain
  string is \<open>Lit s\<close>, aiogram's \<open>hcode\<close> and \<open>hd.quote\<close> and \<open>datetime.strftime\<close> are
  constructors as well, since their rendering belongs to libraries outside the repository.
  The argument of \<open>Hcode\<close> is a list of code points, because \<open>str.upper\<close> leads out of
  the range of \<open>char\<close>.
  \<open>Num n\<close> is \<open>str(n)\<close> and \<open>Join\<close> is the concatenation made by an f-string.
\<close>

record datetime =
  year :: nat
  month :: nat
  day :: nat
  hour :: nat
  minute :: nat
  second :: nat

datatype msg =
    Lit string
  | Get_text string "(string \<times> msg) list"
  | Hcode "nat list"
  | Quote string
  | Strftime string datetime
  | Num int
  | Join "msg list"

definition py_isdigit :: "char \<Rightarrow> bool" where
  \<comment> \<open>\<open>str.isdigit\<close> on one character: the ASCII digits and the superscripts 2, 3, 1.\<close>
  "py_isdigit c = (c \<in> set ''0123456789'' \<or> (of_char c :: nat) \<in> {178, 179, 185})"

definition py_isspace :: "char \<Rightarrow> bool" where
  \<comment> \<open>\<open>str.isspace\<close>, the class stripped by \<open>str.strip()\<close> and matched by \<open>\s\<close>.\<close>
  "py_isspace c = ((of_char c :: nat) \<in> {9, 10, 11, 12, 13, 28, 29, 30, 31, 32, 133, 160})"

definition py_isword :: "char \<Rightarrow> bool" where
  \<comment> \<open>the class \<open>\w\<close> of \<open>re\<close> on \<open>str\<close> patterns: \<open>isalnum\<close> or the underscore.\<close>
  "py_isword c = (let n = (of_char c :: nat) in
     (48 \<le> n \<and> n \<le> 57) \<or> (65 \<le> n \<and> n \<le> 90) \<or> n = 95 \<or> (97 \<le> n \<and> n \<le> 122)
     \<or> n \<in> {170, 178, 179, 181, 185, 186, 188, 189, 190}
     \<or> (192 \<le> n \<and> n \<le> 214) \<or> (216 \<le> n \<and> n \<le> 246) \<or> (248 \<le> n \<and> n \<le> 255))"

definition lower_char :: "char \<Rightarrow> char" where
  "lower_char c = (let n = (of_char c :: nat) in
     if (65 \<le> n \<and> n \<le> 90) \<or> (192 \<le> n \<and> n \<le> 214) \<or> (216 \<le> n \<and> n \<le> 222)
     then char_of (n + 32) else c)"

definition py_lower :: "string \<Rightarrow> string" where
  "py_lower s = map lower_char s"

definition upper_char :: "char \<Rightarrow> nat list" where
  \<comment> \<open>\<open>str.upper\<close> on one character, as code points: the sharp s becomes \<open>SS\<close>, the
      micro sign becomes the Greek capital mu (U+039C) and y with diaeresis becomes
      U+0178, both beyond code point 255.\<close>
  "upper_char c = (let n = (of_char c :: nat) in
     if (97 \<le> n \<and> n \<le> 122) \<or> (224 \<le> n \<and> n \<le> 246) \<or> (248 \<le> n \<and> n \<le> 254)
     then [n - 32]
     else if n = 223 then [83, 83]
     else if n = 181 then [924]
     else if n = 255 then [376]
     else [n])"

definition py_upper :: "string \<Rightarrow> nat list" where
  \<comment> \<open>\<open>s.upper()\<close> as the list of its code points\<close>
  "py_upper s = concat (map upper_char s)"

definition code_points :: "string \<Rightarrow> nat list" where
  "code_points s = map of_char s"

definition py_strip :: "string \<Rightarrow> string" where
  "py_strip s = rev (dropWhile py_isspace (rev (dropWhile py_isspace s)))"

fun starts_with :: "string \<Rightarrow> string \<Rightarrow> bool" where
  \<comment> \<open>\<open>starts_with p s\<close> is \<open>s.startswith(p)\<close>\<close>
  "starts_with [] s = True"
| "starts_with (p # ps) [] = False"
| "starts_with (p # ps) (c # cs) = (p = c \<and> starts_with ps cs)"

fun py_in :: "string \<Rightarrow> string \<Rightarrow> bool" where
  \<comment> \<open>\<open>py_in sub s\<close> is the substring test \<open>sub in s\<close>\<close>
  "py_in sub [] = (sub = [])"
| "py_in sub (c # cs) = (starts_with sub (c # cs) \<or> py_in sub cs)"

definition truthy :: "string option \<Rightarrow> bool" where
  \<comment> \<open>truth value of an \<open>Optional[str]\<close>: \<open>None\<close> and the empty string are false\<close>
  "truthy v = (case v of None \<Rightarrow> False | Some s \<Rightarrow> s \<noteq> [])"

definition py_or :: "string option \<Rightarrow> string option \<Rightarrow> string option" where
  \<comment> \<open>\<open>a or b\<close>\<close>
  "py_or a b = (if truthy a then a else b)"

definition or_str :: "string option \<Rightarrow> string \<Rightarrow> string" where
  \<comment> \<open>\<open>a or d\<close> with a string default\<close>
  "or_str a d = (case a of None \<Rightarrow> d | Some s \<Rightarrow> if s = [] then d else s)"

section \<open>Payment-method titles (subscription/payment\_methods.py)\<close>

definition is_yoomoney_network :: "string option \<Rightarrow> bool" where
  "is_yoomoney_network network =
     (let s = py_lower (or_str network [])
      in py_in ''yoomoney'' s \<or> py_in ''yoo money'' s \<or> py_in ''yoo-money'' s)"

definition extract_last4 :: "string \<Rightarrow> string option" where
  "extract_last4 text =
     (let digits = filter py_isdigit text
      in if 4 \<le> length digits then Some (drop (length digits - 4) digits) else None)"

definition format_pm_title :: "string option \<Rightarrow> string option \<Rightarrow> msg" where
  "format_pm_title network last4 =
     (if is_yoomoney_network network then
        (let l4 = py_or last4 (extract_last4 (or_str network []))
         in case l4 of
              Some d \<Rightarrow>
                if d \<noteq> [] then Get_text ''payment_method_wallet_title'' [(''last4'', Lit d)]
                else Get_text ''payment_method_wallet_title'' [(''last4'', Lit ''****'')]
            | None \<Rightarrow> Get_text ''payment_method_wallet_title'' [(''last4'', Lit ''****'')])
      else if truthy last4 then
        (let network_name =
               (case network of
                  Some n \<Rightarrow> if n \<noteq> [] then Lit n
                            else Get_text ''payment_network_card'' [(''default'', Lit ''Card'')]
                | None \<Rightarrow> Get_text ''payment_network_card'' [(''default'', Lit ''Card'')])
         in Get_text ''payment_method_card_title''
              [(''network'', network_name), (''last4'', Lit (or_str last4 []))])
      else
        (let network_name =
               (case network of
                  Some n \<Rightarrow> if n \<noteq> [] then Lit n
                            else Get_text ''payment_network_generic''
                                   [(''default'', Lit ''Payment method'')]
                | None \<Rightarrow> Get_text ''payment_network_generic''
                            [(''default'', Lit ''Payment method'')])
         in Get_text ''payment_method_generic_title'' [(''network'', network_name)]))"

text \<open>
  The reading of the specification, for comparison with \<open>extract_last4\<close>: the digits are
  taken from the longest run of consecutive digits of the text (the first one among runs
  of equal length), and the last four of that run are kept.
\<close>

fun digit_runs :: "string \<Rightarrow> string \<Rightarrow> string list" where
  \<comment> \<open>the maximal runs of digits, in order; the first argument is the run being read\<close>
  "digit_runs cur [] = (if cur = [] then [] else [cur])"
| "digit_runs cur (c # cs) =
     (if py_isdigit c then digit_runs (cur @ [c]) cs
      else if cur = [] then digit_runs [] cs
      else cur # digit_runs [] cs)"

fun longest_of :: "string \<Rightarrow> string list \<Rightarrow> string" where
  "longest_of best [] = best"
| "longest_of best (r # rs) = longest_of (if length best < length r then r else best) rs"

definition spec_last4_longest_run :: "string \<Rightarrow> string" where
  "spec_last4_longest_run text =
     (let run = longest_of [] (digit_runs [] text) in drop (length run - 4) run)"

section \<open>Handler effects\<close>

text \<open>
  A handler run is modelled by the list of its external actions, in the order in which
  the code performs them: replies to the user, calls of services and of the data-access
  layer, commits and rollbacks. An action that the code wraps in \<open>try/except: pass\<close> and
  whose outcome it never reads is recorded as attempted. A call that the code does not
  guard is modelled as returning: an exception there leaves the handler and belongs to
  the dispatcher. Where the handler itself raises, on a value it received, the run ends
  with \<open>Raised\<close> and the name of the exception. Keyboards are built by modules outside the handlers and are kept as
  constructors applied to the arguments the handler passes. The dictionary handed to
  \<open>user_dal.update_user\<close> is the list of its assignments.
\<close>

datatype markup =
    No_markup
  | Back_to_main_menu_markup
  | Connect_and_main_keyboard msg
  | Main_menu_inline_keyboard bool
  | Autorenew_confirm_keyboard bool int
  | Bind_url_keyboard string
  | Channel_subscription_keyboard "string option"

record payment_request =
  amount_hundredths :: int
  currency :: string
  description :: string
  metadata :: "(string \<times> msg) list"
  receipt_email :: "string option"
  save_payment_method :: bool
  capture :: bool
  bind_only :: bool

datatype field_update =
    Set_language_code string
  | Set_referred_by_id int
  | Set_username "string option"
  | Set_first_name "string option"
  | Set_last_name "string option"
  | Set_channel_subscription_checked_at nat
  | Set_channel_subscription_verified_for int
  | Set_channel_subscription_verified bool

datatype event =
    Reply msg
  | Answer msg markup
  | Alert msg
  | Toast msg
  | Ack
  | Edit_text msg markup
  | Send_clean msg markup
  | State_clear
  | Commit
  | Rollback
  | Notify_suspicious_promo_attempt int "string option" "string option" string
  | Notify_trial_activation int "datetime option"
  | Notify_new_user_registration int "string option" "string option" "int option"
  | Call_apply_promo_code int string string
  | Call_get_active_subscription_details int
  | Call_has_had_any_subscription int
  | Call_has_active_subscription int
  | Call_activate_trial_subscription int
  | Call_mark_trial_activated int
  | Call_user_has_saved_payment_method int
  | Call_update_subscription int bool
  | Call_get_chat_member int int
  | Call_get_user_by_id int
  | Call_create_user int
  | Call_update_user int "field_update list"
  | Call_ad_attribution string
  | Call_get_user_by_referral_code string
  | Call_create_payment payment_request
  | Call_my_subscription_command_handler
  | Raised string

section \<open>Promo-code input (promo\_user.py)\<close>

subsection \<open>The two regular expressions\<close>

text \<open>
  Both patterns are an alternation of short sequences of literal characters, \<open>\s*\<close> and
  \<open>\s\<close>; the keyword pattern is enclosed in \<open>\b ... \b\<close> and compiled with
  \<open>re.IGNORECASE\<close>. A position is the character before the cursor (if any) and the rest
  of the subject. Matching a sequence returns every position at which it can end, so
  that backtracking over \<open>\s*\<close> is covered.
\<close>

datatype atom = Chars string | Ws_star | Ws_one

type_synonym pos = "char option \<times> string"

fun match_chars :: "bool \<Rightarrow> string \<Rightarrow> pos \<Rightarrow> pos option" where
  "match_chars ic [] p = Some p"
| "match_chars ic (x # xs) (prev, []) = None"
| "match_chars ic (x # xs) (prev, c # cs) =
     (if (if ic then lower_char c = lower_char x else c = x)
      then match_chars ic xs (Some c, cs) else None)"

fun ws_positions :: "pos \<Rightarrow> pos list" where
  "ws_positions (prev, []) = [(prev, [])]"
| "ws_positions (prev, c # cs) =
     (if py_isspace c then ws_positions (Some c, cs) @ [(prev, c # cs)]
      else [(prev, c # cs)])"

fun match_atom :: "bool \<Rightarrow> atom \<Rightarrow> pos \<Rightarrow> pos list" where
  "match_atom ic (Chars l) p = (case match_chars ic l p of None \<Rightarrow> [] | Some q \<Rightarrow> [q])"
| "match_atom ic Ws_star p = ws_positions p"
| "match_atom ic Ws_one (prev, []) = []"
| "match_atom ic Ws_one (prev, c # cs) = (if py_isspace c then [(Some c, cs)] else [])"

fun match_atoms :: "bool \<Rightarrow> atom list \<Rightarrow> pos \<Rightarrow> pos list" where
  "match_atoms ic [] p = [p]"
| "match_atoms ic (a # as) p = concat (map (match_atoms ic as) (match_atom ic a p))"

definition at_boundary :: "pos \<Rightarrow> bool" where
  \<comment> \<open>\<open>\b\<close>: exactly one of the two neighbours is a word character\<close>
  "at_boundary p =
     ((case fst p of None \<Rightarrow> False | Some c \<Rightarrow> py_isword c)
      \<noteq> (case snd p of [] \<Rightarrow> False | c # _ \<Rightarrow> py_isword c))"

record regex =
  ignorecase :: bool
  word_bounded :: bool
  alternatives :: "atom list list"

definition match_here :: "regex \<Rightarrow> pos \<Rightarrow> bool" where
  "match_here r p =
     ((word_bounded r \<longrightarrow> at_boundary p)
      \<and> (\<exists>alt \<in> set (alternatives r).
            \<exists>q \<in> set (match_atoms (ignorecase r) alt p). word_bounded r \<longrightarrow> at_boundary q))"

fun search_from :: "regex \<Rightarrow> pos \<Rightarrow> bool" where
  "search_from r (prev, []) = match_here r (prev, [])"
| "search_from r (prev, c # cs) = (match_here r (prev, c # cs) \<or> search_from r (Some c, cs))"

definition re_search :: "regex \<Rightarrow> string \<Rightarrow> bool" where
  \<comment> \<open>\<open>pattern.search(s)\<close> as a truth value\<close>
  "re_search r s = search_from r (None, s)"

definition SUSPICIOUS_SQL_KEYWORDS_REGEX :: regex where
  "SUSPICIOUS_SQL_KEYWORDS_REGEX =
     \<lparr>ignorecase = True, word_bounded = True,
      alternatives =
        [[Chars ''DROP'', Ws_star, Chars ''TABLE''],
         [Chars ''DELETE'', Ws_star, Chars ''FROM''],
         [Chars ''ALTER'', Ws_star, Chars ''TABLE''],
         [Chars ''TRUNCATE'', Ws_star, Chars ''TABLE''],
         [Chars ''UNION'', Ws_star, Chars ''SELECT''],
         [Chars '';'', Ws_star, Chars ''SELECT''],
         [Chars '';'', Ws_star, Chars ''INSERT''],
         [Chars '';'', Ws_star, Chars ''UPDATE''],
         [Chars '';'', Ws_star, Chars ''DELETE''],
         [Chars ''xp_cmdshell''],
         [Chars ''sysdatabases''],
         [Chars ''sysobjects''],
         [Chars ''INFORMATION_SCHEMA'']]\<rparr>"

definition SUSPICIOUS_CHARS_REGEX :: regex where
  "SUSPICIOUS_CHARS_REGEX =
     \<lparr>ignorecase = False, word_bounded = False,
      alternatives =
        [[Chars ''--''], [Chars ''#'', Ws_one], [Chars '';''], [Chars ''*/''], [Chars ''/*'']]\<rparr>"

definition MAX_PROMO_CODE_INPUT_LENGTH :: nat where
  "MAX_PROMO_CODE_INPUT_LENGTH = 100"

subsection \<open>The handler \<open>process_promo_code_input\<close>\<close>

datatype promo_outcome =
    Promo_ok "datetime option"
  | Promo_failed string

record subscription_details =
  config_link :: "string option"

record promo_message =
  msg_text :: "string option"
  from_id :: int
  from_username :: "string option"
  from_first_name :: "string option"

record promo_env =
  i18n_present :: bool
  promo_service_present :: bool
  current_lang :: string
  LOG_SUSPICIOUS_ACTIVITY :: bool
  apply_promo_code :: "int \<Rightarrow> string \<Rightarrow> promo_outcome"
  active_details :: "subscription_details option"

definition code_input_of :: "string option \<Rightarrow> string" where
  \<comment> \<open>\<open>message.text.strip() if message.text else ""\<close>\<close>
  "code_input_of t = (case t of None \<Rightarrow> [] | Some s \<Rightarrow> if s = [] then [] else py_strip s)"

definition is_suspicious :: "string \<Rightarrow> bool" where
  "is_suspicious code_input =
     (if code_input = [] then True
      else if MAX_PROMO_CODE_INPUT_LENGTH < length code_input
              \<or> re_search SUSPICIOUS_SQL_KEYWORDS_REGEX code_input
              \<or> re_search SUSPICIOUS_CHARS_REGEX code_input
      then True else False)"

definition config_link_or_placeholder :: "subscription_details option \<Rightarrow> msg" where
  \<comment> \<open>\<open>(active.get("config_link") if active else None) or _("config_link_not_available")\<close>\<close>
  "config_link_or_placeholder active =
     (case active of
        None \<Rightarrow> Get_text ''config_link_not_available'' []
      | Some d \<Rightarrow>
          (case config_link d of
             None \<Rightarrow> Get_text ''config_link_not_available'' []
           | Some l \<Rightarrow> if l = [] then Get_text ''config_link_not_available'' [] else Lit l))"

definition process_promo_code_input :: "promo_env \<Rightarrow> promo_message \<Rightarrow> event list" where
  "process_promo_code_input env m =
     (if \<not> i18n_present env \<or> \<not> promo_service_present env then
        [Reply (Lit ''Service error. Please try again later.''), State_clear]
      else
        (let code_input = code_input_of (msg_text m)
         in (if is_suspicious code_input then
               (if LOG_SUSPICIOUS_ACTIVITY env
                then [Notify_suspicious_promo_attempt (from_id m) (from_username m)
                        (from_first_name m) code_input]
                else [])
               @ [Answer
                    (Get_text ''promo_code_not_found''
                       [(''code'', if code_input \<noteq> [] then Hcode (py_upper code_input)
                                   else Hcode [])])
                    Back_to_main_menu_markup]
             else
               (case apply_promo_code env (from_id m) code_input of
                  Promo_ok result \<Rightarrow>
                    (let new_end_date = result;
                         link = config_link_or_placeholder (active_details env)
                     in [Call_apply_promo_code (from_id m) code_input (current_lang env),
                         Commit,
                         Call_get_active_subscription_details (from_id m),
                         Answer
                           (Get_text ''promo_code_applied_success_full''
                              [(''end_date'',
                                case new_end_date of
                                  Some d \<Rightarrow> Strftime ''%d.%m.%Y %H:%M:%S'' d
                                | None \<Rightarrow> Lit ''N/A''),
                               (''config_link'', link)])
                           (Connect_and_main_keyboard link)])
                | Promo_failed result \<Rightarrow>
                    [Call_apply_promo_code (from_id m) code_input (current_lang env),
                     Rollback,
                     Answer (Lit result) Back_to_main_menu_markup]))
            @ [State_clear]))"

text \<open>Sample inputs: both services present, a promo service that knows no code.\<close>

definition promo_env_example :: promo_env where
  "promo_env_example =
     \<lparr>i18n_present = True, promo_service_present = True, current_lang = ''en'',
      LOG_SUSPICIOUS_ACTIVITY = False,
      apply_promo_code = (\<lambda>u c. if c = ''SALE2024'' then Promo_ok None
                                else Promo_failed ''no such code''),
      active_details = None\<rparr>"

definition promo_message_example :: "string \<Rightarrow> promo_message" where
  "promo_message_example t =
     \<lparr>msg_text = Some t, from_id = 7, from_username = None, from_first_name = None\<rparr>"

section \<open>Database session\<close>

text \<open>
  The handlers receive an SQLAlchemy session. It is modelled by the committed state of
  the database and the state seen inside the open transaction: \<open>commit\<close> makes the
  second the first, \<open>rollback\<close> discards every write made since the last commit.
\<close>

record user_row =
  username :: "string option"
  first_name :: "string option"
  last_name :: "string option"
  language_code :: "string option"
  referred_by_id :: "int option"
  channel_subscription_verified :: "bool option"
  channel_subscription_verified_for :: "int option"
  channel_subscription_checked_at :: "nat option"
  registration_date :: "nat option"

record subscription_row =
  sub_user_id :: int
  provider :: "string option"
  auto_renew_enabled :: bool

record db =
  users :: "int \<rightharpoonup> user_row"
  subscriptions :: "(int \<times> subscription_row) list"
  ad_trial_activated :: "int \<rightharpoonup> bool"

record session =
  committed :: db
  pending :: db

definition commit :: "session \<Rightarrow> session" where
  "commit s = s\<lparr>committed := pending s\<rparr>"

definition rollback :: "session \<Rightarrow> session" where
  "rollback s = s\<lparr>pending := committed s\<rparr>"

section \<open>Main menu (start.py, \<open>send_main_menu\<close>)\<close>

record menu_call =
  is_callback :: bool
  menu_i18n :: bool
  has_message :: bool
  menu_trial_enabled :: bool
  menu_has_had :: bool
  render_ok :: bool
  full_name :: string
  menu_user_id :: int

definition main_menu_text :: "menu_call \<Rightarrow> msg" where
  "main_menu_text c = Get_text ''main_menu_greeting'' [(''user_name'', Quote (full_name c))]"

definition send_main_menu :: "menu_call \<Rightarrow> bool \<Rightarrow> event list" where
  \<comment> \<open>the second argument is \<open>is_edit\<close>; \<open>render_ok\<close> tells whether the edit (or the
      send) succeeds, \<open>menu_has_had\<close> is the answer of \<open>has_had_any_subscription\<close>\<close>
  "send_main_menu c is_edit =
     (if \<not> menu_i18n c then
        (if is_callback c
         then [Alert (Lit ''Error: Language service unavailable. Please try again later.'')]
         else [Answer (Lit ''Error: Language service unavailable. Please try again later.'')
                 No_markup])
      else
        (let show_trial_button_in_menu = (menu_trial_enabled c \<and> \<not> menu_has_had c);
             reply_markup = Main_menu_inline_keyboard show_trial_button_in_menu
         in (if menu_trial_enabled c then [Call_has_had_any_subscription (menu_user_id c)]
             else [])
            @ (if is_callback c \<and> \<not> has_message c then
                 [Alert (Get_text ''error_displaying_menu'' [])]
               else if is_edit then
                 (if render_ok c
                  then [Edit_text (main_menu_text c) reply_markup]
                       @ (if is_callback c then [Ack] else [])
                  else [Edit_text (main_menu_text c) reply_markup,
                        Answer (main_menu_text c) reply_markup])
               else
                 (if render_ok c
                  then [Send_clean (main_menu_text c) reply_markup]
                       @ (if is_callback c then [Ack] else [])
                  else [Send_clean (main_menu_text c) reply_markup]))))"

section \<open>Trial activation (trial\_handler.py)\<close>

record activation_result =
  activated :: bool
  end_date :: "datetime option"
  subscription_url :: "string option"
  days :: "int option"
  traffic_gb :: "int option"
  message_key :: "string option"

record trial_env =
  trial_i18n :: bool
  callback_has_message :: bool
  caller_id :: int
  caller_full_name :: string
  TRIAL_ENABLED :: bool
  TRIAL_DURATION_DAYS :: int
  TRIAL_TRAFFIC_LIMIT_GB :: int
  has_had_any_subscription :: "db \<Rightarrow> int \<Rightarrow> bool"
  activate_trial_subscription :: "session \<Rightarrow> int \<Rightarrow> session \<times> activation_result option"
  mark_trial_activated :: "db \<Rightarrow> int \<Rightarrow> db option"
  commit_ok :: bool
  edit_text_ok :: bool

definition trial_menu :: "trial_env \<Rightarrow> session \<Rightarrow> menu_call" where
  \<comment> \<open>the call \<open>send_main_menu(callback, ...)\<close> as made from the trial handler\<close>
  "trial_menu env s =
     \<lparr>is_callback = True, menu_i18n = trial_i18n env, has_message = callback_has_message env,
      menu_trial_enabled = TRIAL_ENABLED env,
      menu_has_had = has_had_any_subscription env (pending s) (caller_id env),
      render_ok = edit_text_ok env, full_name = caller_full_name env,
      menu_user_id = caller_id env\<rparr>"

definition render_result :: "trial_env \<Rightarrow> msg \<Rightarrow> markup \<Rightarrow> event list" where
  \<comment> \<open>\<open>callback.message.edit_text\<close>, with \<open>send_clean\<close> when the edit raises\<close>
  "render_result env t k =
     (if edit_text_ok env then [Edit_text t k] else [Edit_text t k, Send_clean t k])"

definition trial_details_text :: "trial_env \<Rightarrow> activation_result \<Rightarrow> msg \<Rightarrow> msg" where
  "trial_details_text env r link =
     (let d = (case days r of Some n \<Rightarrow> n | None \<Rightarrow> TRIAL_DURATION_DAYS env);
          traffic = (case traffic_gb r of Some n \<Rightarrow> n | None \<Rightarrow> TRIAL_TRAFFIC_LIMIT_GB env);
          traffic_disp = (if traffic \<noteq> 0 \<and> 0 < traffic then Join [Num traffic, Lit '' GB'']
                          else Get_text ''traffic_unlimited'' [])
      in Get_text ''trial_activated_details_message''
           [(''days'', Num d),
            (''end_date'', case end_date r of Some e \<Rightarrow> Strftime ''%Y-%m-%d'' e
                                              | None \<Rightarrow> Lit ''N/A''),
            (''config_link'', link),
            (''traffic_gb'', traffic_disp)])"

definition trial_config_link :: "activation_result option \<Rightarrow> msg" where
  \<comment> \<open>\<open>(activation_result.get("subscription_url") if activation_result else None)
      or get_text("config_link_not_available")\<close>\<close>
  "trial_config_link activation_result =
     (case activation_result of
        None \<Rightarrow> Get_text ''config_link_not_available'' []
      | Some r \<Rightarrow>
          (case subscription_url r of
             None \<Rightarrow> Get_text ''config_link_not_available'' []
           | Some l \<Rightarrow> if l = [] then Get_text ''config_link_not_available'' [] else Lit l))"

definition activate_trial :: "trial_env \<Rightarrow> bool \<Rightarrow> session \<Rightarrow> session \<times> event list" where
  \<comment> \<open>\<open>_activate_trial\<close>; the second argument is \<open>notify_admin\<close>\<close>
  "activate_trial env notify_admin s =
     (let user_id = caller_id env in
      if \<not> trial_i18n env \<or> \<not> callback_has_message env then
        (s, [Alert (if trial_i18n env then Get_text ''error_occurred_try_again'' []
                    else Lit ''error_occurred_try_again'')])
      else if \<not> TRIAL_ENABLED env then
        (s, [Alert (Get_text ''trial_feature_disabled'' [])]
            @ send_main_menu (trial_menu env s) True)
      else if has_had_any_subscription env (pending s) user_id then
        (s, [Call_has_had_any_subscription user_id,
             Alert (Get_text ''trial_already_had_subscription_or_trial'' [])]
            @ send_main_menu (trial_menu env s) True)
      else
        (case activate_trial_subscription env s user_id of
           (s1, activation_result) \<Rightarrow>
             (let config_link = trial_config_link activation_result
              in case activation_result of
                   Some r \<Rightarrow>
                     if activated r then
                       (let marked =
                              (case mark_trial_activated env (pending s1) user_id of
                                 None \<Rightarrow> (rollback s1, [Rollback])
                               | Some d \<Rightarrow>
                                   if commit_ok env
                                   then (commit (s1\<lparr>pending := d\<rparr>), [Commit])
                                   else (rollback (s1\<lparr>pending := d\<rparr>), [Commit, Rollback]))
                        in (fst marked,
                            [Call_has_had_any_subscription user_id,
                             Call_activate_trial_subscription user_id,
                             Alert (Get_text ''trial_activated_alert'' [])]
                            @ (if notify_admin then [Notify_trial_activation user_id (end_date r)]
                               else [])
                            @ [Call_mark_trial_activated user_id]
                            @ snd marked
                            @ render_result env (trial_details_text env r config_link)
                                (Connect_and_main_keyboard config_link)))
                     else
                       (let t = Get_text (case message_key r of
                                            Some k \<Rightarrow> k | None \<Rightarrow> ''trial_activation_failed'') [];
                            show_trial_btn =
                              (TRIAL_ENABLED env
                               \<and> \<not> has_had_any_subscription env (pending s1) user_id)
                        in (s1,
                            [Call_has_had_any_subscription user_id,
                             Call_activate_trial_subscription user_id,
                             Alert t,
                             Call_has_had_any_subscription user_id]
                            @ render_result env t (Main_menu_inline_keyboard show_trial_btn)))
                 | None \<Rightarrow>
                     (let t = Get_text ''trial_activation_failed'' [];
                          show_trial_btn =
                            (TRIAL_ENABLED env
                             \<and> \<not> has_had_any_subscription env (pending s1) user_id)
                      in (s1,
                          [Call_has_had_any_subscription user_id,
                           Call_activate_trial_subscription user_id,
                           Alert t,
                           Call_has_had_any_subscription user_id]
                          @ render_result env t (Main_menu_inline_keyboard show_trial_btn))))))"

definition request_trial_confirmation_handler ::
  "trial_env \<Rightarrow> session \<Rightarrow> session \<times> event list" where
  \<comment> \<open>callback \<open>trial_action:request\<close>\<close>
  "request_trial_confirmation_handler env s = activate_trial env True s"

definition confirm_activate_trial_handler ::
  "trial_env \<Rightarrow> session \<Rightarrow> session \<times> event list" where
  \<comment> \<open>callback \<open>trial_action:confirm_activate\<close>\<close>
  "confirm_activate_trial_handler env s = activate_trial env True s"


subsection \<open>The services behind the trial handler\<close>

text \<open>
  Modelled from the spec: \<open>SubscriptionService.has_had_any_subscription\<close> and
  \<open>SubscriptionService.activate_trial_subscription\<close> are not among the sources. By
  sections 3, 4.6 and 5 of the specification a trial is one more subscription row of the
  user, the activation is idempotent per user and returns the activation flag and the end
  date, and "a commit follows a successful state-changing step (promo redemption, trial
  activation, ...)", later failures coming "after trial commit". The model appends a
  trial row for the user and commits the session; a user who already has a row is
  refused and nothing is written.
\<close>

definition spec_has_had_any_subscription :: "db \<Rightarrow> int \<Rightarrow> bool" where
  "spec_has_had_any_subscription d uid =
     (filter (\<lambda>x. sub_user_id (snd x) = uid) (subscriptions d) \<noteq> [])"

definition fresh_subscription_id :: "db \<Rightarrow> int" where
  "fresh_subscription_id d = fold max (map fst (subscriptions d)) 0 + 1"

definition spec_activate_trial_subscription ::
  "datetime \<Rightarrow> session \<Rightarrow> int \<Rightarrow> session \<times> activation_result option" where
  "spec_activate_trial_subscription until s uid =
     (if spec_has_had_any_subscription (pending s) uid then
        (s, Some \<lparr>activated = False, end_date = None, subscription_url = None,
                  days = None, traffic_gb = None, message_key = None\<rparr>)
      else
        (let d = pending s;
             row = \<lparr>sub_user_id = uid, provider = Some ''trial'', auto_renew_enabled = False\<rparr>;
             d' = d\<lparr>subscriptions := subscriptions d @ [(fresh_subscription_id d, row)]\<rparr>
         in (commit (s\<lparr>pending := d'\<rparr>),
             Some \<lparr>activated = True, end_date = Some until, subscription_url = None,
                   days = None, traffic_gb = None, message_key = None\<rparr>)))"

text \<open>
  Modelled from the spec: \<open>ad_dal.mark_trial_activated\<close> is not among the sources. By
  section 3 an attribution row carries "a marker for whether the attributed user
  subsequently activated a trial"; the model sets the marker of the user's row, if there
  is one, inside the open transaction.
\<close>

definition spec_mark_trial_activated :: "db \<Rightarrow> int \<Rightarrow> db option" where
  "spec_mark_trial_activated d uid =
     Some (case ad_trial_activated d uid of
             None \<Rightarrow> d
           | Some _ \<Rightarrow> d\<lparr>ad_trial_activated := (ad_trial_activated d)(uid \<mapsto> True)\<rparr>)"

text \<open>Sample inputs for the trial handler: a user who came through a campaign.\<close>

definition db_example :: db where
  "db_example = \<lparr>users = Map.empty, subscriptions = [], ad_trial_activated = [7 \<mapsto> False]\<rparr>"

definition session_example :: session where
  "session_example = \<lparr>committed = db_example, pending = db_example\<rparr>"

definition datetime_example :: datetime where
  "datetime_example = \<lparr>year = 2025, month = 1, day = 31, hour = 12, minute = 0, second = 0\<rparr>"

definition trial_env_example :: trial_env where
  "trial_env_example =
     \<lparr>trial_i18n = True, callback_has_message = True, caller_id = 7,
      caller_full_name = ''Ann'', TRIAL_ENABLED = True, TRIAL_DURATION_DAYS = 3,
      TRIAL_TRAFFIC_LIMIT_GB = 0,
      has_had_any_subscription = spec_has_had_any_subscription,
      activate_trial_subscription = spec_activate_trial_subscription datetime_example,
      mark_trial_activated = spec_mark_trial_activated,
      commit_ok = False, edit_text_ok = True\<rparr>"


definition session_with_trial_example :: session where
  "session_with_trial_example =
     (let d = db_example\<lparr>subscriptions :=
                [(1, \<lparr>sub_user_id = 7, provider = Some ''trial'', auto_renew_enabled = False\<rparr>)]\<rparr>
      in \<lparr>committed = d, pending = d\<rparr>)"

section \<open>Callback data\<close>

fun split_max :: "char \<Rightarrow> nat \<Rightarrow> string \<Rightarrow> string \<Rightarrow> string list" where
  \<comment> \<open>\<open>s.split(sep, n)\<close> is \<open>split_max sep n [] s\<close>; the third argument is the piece being read\<close>
  "split_max sep n cur [] = [cur]"
| "split_max sep n cur (c # cs) =
     (if c = sep \<and> 0 < n then cur # split_max sep (n - 1) [] cs
      else split_max sep n (cur @ [c]) cs)"

fun parse_digits :: "string \<Rightarrow> int \<Rightarrow> bool \<Rightarrow> int option" where
  \<comment> \<open>decimal digits with single underscores between them; the flag tells whether the
      character just read was a digit\<close>
  "parse_digits [] acc prev = (if prev then Some acc else None)"
| "parse_digits (c # cs) acc prev =
     (if c \<in> set ''0123456789'' then parse_digits cs (10 * acc + (int (of_char c) - 48)) True
      else if c = CHR ''_'' \<and> prev then parse_digits cs acc False
      else None)"

definition int_isspace :: "char \<Rightarrow> bool" where
  \<comment> \<open>the white space that \<open>int()\<close> skips around a number: tab, line feed, vertical tab,
      form feed, carriage return, space, and the next-line and no-break-space characters.
      The separators U+001C to U+001F, which \<open>str.strip()\<close> removes, are not skipped.\<close>
  "int_isspace c = ((of_char c :: nat) \<in> {9, 10, 11, 12, 13, 32, 133, 160})"

definition int_strip :: "string \<Rightarrow> string" where
  "int_strip s = rev (dropWhile int_isspace (rev (dropWhile int_isspace s)))"

definition py_int :: "string \<Rightarrow> int option" where
  \<comment> \<open>\<open>int(s)\<close>; \<open>None\<close> is \<open>ValueError\<close>\<close>
  "py_int s =
     (case int_strip s of
        [] \<Rightarrow> None
      | c # cs \<Rightarrow>
          if c = CHR ''-'' then map_option uminus (parse_digits cs 0 False)
          else if c = CHR ''+'' then parse_digits cs 0 False
          else parse_digits (c # cs) 0 False)"

section \<open>Auto-renew confirmation (subscription/core.py)\<close>

text \<open>
  Modelled from the spec: \<open>subscription_dal.update_subscription\<close> is not among the
  sources; by section 4.5 it is a partial patch of one subscription row, here of its
  auto-renew flag, made inside the open transaction.
\<close>

definition update_subscription_auto_renew :: "db \<Rightarrow> int \<Rightarrow> bool \<Rightarrow> db" where
  "update_subscription_auto_renew d sub_id enable =
     d\<lparr>subscriptions :=
         map (\<lambda>x. if fst x = sub_id then (fst x, (snd x)\<lparr>auto_renew_enabled := enable\<rparr>) else x)
           (subscriptions d)\<rparr>"

record autorenew_env =
  autorenew_caller_id :: int
  autorenew_i18n :: bool
  user_has_saved_payment_method :: "db \<Rightarrow> int \<Rightarrow> bool"

definition autorenew_alert :: "autorenew_env \<Rightarrow> string \<Rightarrow> event" where
  \<comment> \<open>\<open>await callback.answer(get_text(key), show_alert=True)\<close> outside any \<open>try\<close>, with
      \<open>get_text = lambda key, **kw: i18n.gettext(current_lang, key, **kw)\<close>: when
      \<open>i18n_instance\<close> is \<open>None\<close> the call of \<open>get_text\<close> raises and nothing is sent\<close>
  "autorenew_alert env key =
     (if autorenew_i18n env then Alert (Get_text key []) else Raised ''AttributeError'')"

definition parse_confirm :: "string \<Rightarrow> (int \<times> bool) option" where
  \<comment> \<open>the \<open>try\<close> block: \<open>_, _, sub_id_str, enable_str = callback.data.split(":", 3)\<close>,
      \<open>int(sub_id_str)\<close>, \<open>bool(int(enable_str))\<close>; \<open>None\<close> is the \<open>except\<close> branch\<close>
  "parse_confirm data =
     (case split_max (CHR '':'') 3 [] data of
        [a, b, sub_id_str, enable_str] \<Rightarrow>
          (case py_int sub_id_str of
             None \<Rightarrow> None
           | Some sub_id \<Rightarrow>
               (case py_int enable_str of
                  None \<Rightarrow> None
                | Some e \<Rightarrow> Some (sub_id, e \<noteq> 0)))
      | _ \<Rightarrow> None)"

definition confirm_autorenew_handler ::
  "autorenew_env \<Rightarrow> string \<Rightarrow> session \<Rightarrow> session \<times> event list" where
  \<comment> \<open>callback \<open>autorenew:confirm:<subscription id>:<0|1>\<close>; the last answer stands in
      \<open>try: ... except: pass\<close>, so that without the text service it is skipped\<close>
  "confirm_autorenew_handler env data s =
     (case parse_confirm data of
        None \<Rightarrow> (s, [autorenew_alert env ''error_try_again''])
      | Some (sub_id, enable) \<Rightarrow>
          (case map_of (subscriptions (pending s)) sub_id of
             None \<Rightarrow> (s, [autorenew_alert env ''error_try_again''])
           | Some sub \<Rightarrow>
               if sub_user_id sub \<noteq> autorenew_caller_id env then
                 (s, [autorenew_alert env ''error_try_again''])
               else if provider sub = Some ''tribute'' then
                 (s, [autorenew_alert env ''subscription_autorenew_not_supported_for_tribute''])
               else if enable
                       \<and> \<not> user_has_saved_payment_method env (pending s) (autorenew_caller_id env)
               then
                 (s, [Call_user_has_saved_payment_method (autorenew_caller_id env),
                      autorenew_alert env ''autorenew_enable_requires_card''])
               else
                 (commit (s\<lparr>pending := update_subscription_auto_renew (pending s) sub_id enable\<rparr>),
                  (if enable then [Call_user_has_saved_payment_method (autorenew_caller_id env)]
                   else [])
                  @ [Call_update_subscription sub_id enable, Commit]
                  @ (if autorenew_i18n env
                     then [Toast (Get_text ''subscription_autorenew_updated'' [])] else [])
                  @ [Call_my_subscription_command_handler])))"

text \<open>Sample inputs: user 7 owns a card-billed subscription 5 and a Tribute subscription 6.\<close>

definition autorenew_session_example :: session where
  "autorenew_session_example =
     (let d = \<lparr>users = Map.empty,
                subscriptions =
                  [(5, \<lparr>sub_user_id = 7, provider = Some ''yookassa'', auto_renew_enabled = False\<rparr>),
                   (6, \<lparr>sub_user_id = 7, provider = Some ''tribute'', auto_renew_enabled = False\<rparr>)],
                ad_trial_activated = Map.empty\<rparr>
      in \<lparr>committed = d, pending = d\<rparr>)"

definition autorenew_env_example :: autorenew_env where
  "autorenew_env_example =
     \<lparr>autorenew_caller_id = 7, autorenew_i18n = True,
      user_has_saved_payment_method = (\<lambda>d u. False)\<rparr>"

section \<open>Card binding (subscription/payment\_methods.py)\<close>

text \<open>
  The amount \<open>1.00\<close> of the request is kept in hundredths of the currency unit. The
  gateway's answer is the dictionary returned by \<open>create_payment\<close>, of which the handler
  reads \<open>confirmation_url\<close>; \<open>None\<close> stands for an empty answer.
\<close>

record gateway_response =
  confirmation_url :: "string option"

record bind_env =
  YOOKASSA_AUTOPAYMENTS_ENABLED :: bool
  YOOKASSA_DEFAULT_RECEIPT_EMAIL :: "string option"
  DEFAULT_CURRENCY_SYMBOL :: string
  bind_i18n :: bool
  bind_caller_id :: int
  create_payment :: "payment_request \<Rightarrow> gateway_response option"
  bind_edit_ok :: bool

definition bind_text :: "bind_env \<Rightarrow> string \<Rightarrow> msg" where
  \<comment> \<open>\<open>_ = lambda key, **kwargs: i18n.gettext(current_lang, key, **kwargs) if i18n else key\<close>\<close>
  "bind_text env key = (if bind_i18n env then Get_text key [] else Lit key)"

definition bind_request :: "bind_env \<Rightarrow> payment_request" where
  \<comment> \<open>the arguments of the call \<open>yookassa_service.create_payment(...)\<close>\<close>
  "bind_request env =
     \<lparr>amount_hundredths = 100,
      currency = ''RUB'',
      description = ''Bind card'',
      metadata = [(''user_id'', Num (bind_caller_id env)), (''bind_only'', Lit ''1'')],
      receipt_email = YOOKASSA_DEFAULT_RECEIPT_EMAIL env,
      save_payment_method = True,
      capture = False,
      bind_only = True\<rparr>"

definition payment_method_bind :: "bind_env \<Rightarrow> event list" where
  \<comment> \<open>callback \<open>pm:bind\<close>\<close>
  "payment_method_bind env =
     (if \<not> YOOKASSA_AUTOPAYMENTS_ENABLED env then
        [Alert (bind_text env ''error_service_unavailable'')]
      else
        (let resp = create_payment env (bind_request env);
             url = (case resp of None \<Rightarrow> None | Some r \<Rightarrow> confirmation_url r)
         in case url of
              None \<Rightarrow>
                [Call_create_payment (bind_request env),
                 Alert (bind_text env ''error_payment_gateway'')]
            | Some u \<Rightarrow>
                if u = [] then
                  [Call_create_payment (bind_request env),
                   Alert (bind_text env ''error_payment_gateway'')]
                else
                  [Call_create_payment (bind_request env)]
                  @ (if bind_edit_ok env
                     then [Edit_text (bind_text env ''payment_methods_title'') (Bind_url_keyboard u)]
                     else [Edit_text (bind_text env ''payment_methods_title'') (Bind_url_keyboard u),
                           Send_clean (bind_text env ''payment_methods_title'')
                             (Bind_url_keyboard u)])
                  @ [Ack]))"

text \<open>Sample input: a deployment whose configured currency symbol is USD.\<close>

definition bind_env_example :: bind_env where
  "bind_env_example =
     \<lparr>YOOKASSA_AUTOPAYMENTS_ENABLED = True,
      YOOKASSA_DEFAULT_RECEIPT_EMAIL = Some ''shop@example.org'',
      DEFAULT_CURRENCY_SYMBOL = ''USD'',
      bind_i18n = True, bind_caller_id = 7,
      create_payment = (\<lambda>r. Some \<lparr>confirmation_url = None\<rparr>),
      bind_edit_ok = True\<rparr>"

section \<open>User records (db/dal/user\_dal.py)\<close>

text \<open>
  Modelled from the spec: the data-access layer is not among the sources. By section 4.5
  \<open>user_dal\<close> offers get-by-id and update as a "partial field patch": the assignments of
  the payload are applied to the row of that user, inside the open transaction, and no
  other field and no other row changes.
\<close>

fun apply_field :: "field_update \<Rightarrow> user_row \<Rightarrow> user_row" where
  "apply_field (Set_language_code v) u = u\<lparr>language_code := Some v\<rparr>"
| "apply_field (Set_referred_by_id v) u = u\<lparr>referred_by_id := Some v\<rparr>"
| "apply_field (Set_username v) u = u\<lparr>username := v\<rparr>"
| "apply_field (Set_first_name v) u = u\<lparr>first_name := v\<rparr>"
| "apply_field (Set_last_name v) u = u\<lparr>last_name := v\<rparr>"
| "apply_field (Set_channel_subscription_checked_at v) u =
     u\<lparr>channel_subscription_checked_at := Some v\<rparr>"
| "apply_field (Set_channel_subscription_verified_for v) u =
     u\<lparr>channel_subscription_verified_for := Some v\<rparr>"
| "apply_field (Set_channel_subscription_verified v) u =
     u\<lparr>channel_subscription_verified := Some v\<rparr>"

definition get_user_by_id :: "db \<Rightarrow> int \<Rightarrow> user_row option" where
  "get_user_by_id d uid = users d uid"

definition update_user :: "db \<Rightarrow> int \<Rightarrow> field_update list \<Rightarrow> db" where
  "update_user d uid payload =
     (case users d uid of
        None \<Rightarrow> d
      | Some u \<Rightarrow> d\<lparr>users := (users d)(uid \<mapsto> fold apply_field payload u)\<rparr>)"

section \<open>Required-channel gate (start.py)\<close>

datatype member_outcome =
    Member_status "string option"
  | Telegram_bad_request
  | Telegram_forbidden
  | Telegram_api_error

record gate_env =
  REQUIRED_CHANNEL_ID :: "int option"
  REQUIRED_CHANNEL_LINK :: "string option"
  ADMIN_IDS :: "int list"
  DISABLE_WELCOME_MESSAGE :: bool
  gate_trial_enabled :: bool
  gate_i18n :: bool
  event_is_callback :: bool
  event_has_message :: bool
  from_user_id :: int
  from_user_full_name :: string
  get_user_raises :: bool
  chat_member :: member_outcome
  now :: nat
  gate_has_had :: "db \<Rightarrow> int \<Rightarrow> bool"
  gate_render_ok :: bool

definition translate :: "gate_env \<Rightarrow> string \<Rightarrow> msg" where
  \<comment> \<open>\<open>i18n.gettext(current_lang, key, **kwargs) if i18n else key\<close>\<close>
  "translate env key = (if gate_i18n env then Get_text key [] else Lit key)"

definition allowed_statuses :: "string list" where
  "allowed_statuses = [''creator'', ''administrator'', ''member'', ''restricted'']"

definition channel_prompt :: "gate_env \<Rightarrow> event list" where
  \<comment> \<open>the prompt shown after a check that found no membership\<close>
  "channel_prompt env =
     (let keyboard = (if gate_i18n env then Channel_subscription_keyboard (REQUIRED_CHANNEL_LINK env)
                      else No_markup);
          prompt_text = translate env ''channel_subscription_required''
      in if event_is_callback env then
           (if event_has_message env then [Edit_text prompt_text keyboard] else [])
           @ [Alert prompt_text]
         else [Answer prompt_text keyboard])"

definition ensure_required_channel_subscription ::
  "gate_env \<Rightarrow> user_row option \<Rightarrow> session \<Rightarrow> bool \<times> session \<times> event list" where
  \<comment> \<open>the second argument is the parameter \<open>db_user\<close>\<close>
  "ensure_required_channel_subscription env db_user s =
     (case REQUIRED_CHANNEL_ID env of
        None \<Rightarrow> (True, s, [])
      | Some required_channel_id \<Rightarrow>
          if required_channel_id = 0 then (True, s, [])
          else if event_is_callback env \<and> \<not> event_has_message env then (False, s, [])
          else if from_user_id env \<in> set (ADMIN_IDS env) then (True, s, [])
          else if db_user = None \<and> get_user_raises env then
            (False, s, [Call_get_user_by_id (from_user_id env)])
          else
            (let looked_up = (db_user = None);
                 lookup = (if looked_up then [Call_get_user_by_id (from_user_id env)] else []);
                 db_user' = (if looked_up then get_user_by_id (pending s) (from_user_id env)
                             else db_user)
             in case db_user' of
                  None \<Rightarrow> (True, s, lookup)
                | Some u \<Rightarrow>
                    if channel_subscription_verified u = Some True
                       \<and> channel_subscription_verified_for u = Some required_channel_id
                    then (True, s, lookup)
                    else
                      (let query = lookup
                             @ [Call_get_chat_member required_channel_id (from_user_id env)];
                           record_result = (\<lambda>is_member.
                             let payload =
                                   [Set_channel_subscription_checked_at (now env),
                                    Set_channel_subscription_verified_for required_channel_id,
                                    Set_channel_subscription_verified is_member];
                                 s' = s\<lparr>pending := update_user (pending s) (from_user_id env) payload\<rparr>
                             in if is_member
                                then (True, s',
                                      query @ [Call_update_user (from_user_id env) payload])
                                else (False, s',
                                      query @ [Call_update_user (from_user_id env) payload]
                                      @ channel_prompt env))
                       in case chat_member env of
                            Member_status st \<Rightarrow>
                              record_result (case st of None \<Rightarrow> False
                                             | Some v \<Rightarrow> v \<in> set allowed_statuses)
                          | Telegram_bad_request \<Rightarrow> record_result False
                          | Telegram_forbidden \<Rightarrow>
                              (False, s,
                               query @ (if event_is_callback env
                                        then [Alert (translate env ''channel_subscription_check_failed'')]
                                        else []))
                          | Telegram_api_error \<Rightarrow>
                              (False, s,
                               query @ (if event_is_callback env
                                        then [Alert (translate env ''channel_subscription_check_failed'')]
                                        else [])))))"

definition gate_menu :: "gate_env \<Rightarrow> session \<Rightarrow> menu_call" where
  \<comment> \<open>the call \<open>send_main_menu(event, ...)\<close> as made from start.py\<close>
  "gate_menu env s =
     \<lparr>is_callback = event_is_callback env, menu_i18n = gate_i18n env,
      has_message = event_has_message env,
      menu_trial_enabled = gate_trial_enabled env,
      menu_has_had = gate_has_had env (pending s) (from_user_id env),
      render_ok = gate_render_ok env, full_name = from_user_full_name env,
      menu_user_id = from_user_id env\<rparr>"

definition verify_channel_subscription_callback ::
  "gate_env \<Rightarrow> session \<Rightarrow> session \<times> event list" where
  \<comment> \<open>callback \<open>channel_subscription:verify\<close>; the event is a callback query\<close>
  "verify_channel_subscription_callback env s =
     (let db_user = get_user_by_id (pending s) (from_user_id env)
      in case ensure_required_channel_subscription env db_user s of
           (verified, s', evs) \<Rightarrow>
             if \<not> verified then (s', Call_get_user_by_id (from_user_id env) # evs)
             else
               (s', Call_get_user_by_id (from_user_id env) # evs
                    @ (if \<not> DISABLE_WELCOME_MESSAGE env \<and> gate_i18n env \<and> event_has_message env
                       then [Answer (Get_text ''welcome''
                                       [(''user_name'', Quote (from_user_full_name env))])
                               No_markup]
                       else [])
                    @ (if gate_i18n env
                       then [Alert (Get_text ''channel_subscription_verified_success'' [])]
                       else [])
                    @ send_main_menu (gate_menu env s') True))"

text \<open>Sample inputs: channel -1001 is required, user 7 is not an administrator.\<close>

definition user_row_example :: user_row where
  "user_row_example =
     \<lparr>username = Some ''ann'', first_name = Some ''Ann'', last_name = None,
      language_code = Some ''en'', referred_by_id = None,
      channel_subscription_verified = Some False,
      channel_subscription_verified_for = Some (- 1001),
      channel_subscription_checked_at = Some 10,
      registration_date = Some 1\<rparr>"

definition gate_env_example :: gate_env where
  "gate_env_example =
     \<lparr>REQUIRED_CHANNEL_ID = Some (- 1001), REQUIRED_CHANNEL_LINK = Some ''https://t.me/ch'',
      ADMIN_IDS = [1], DISABLE_WELCOME_MESSAGE = True, gate_trial_enabled = False,
      gate_i18n = True, event_is_callback = True, event_has_message = True,
      from_user_id = 7, from_user_full_name = ''Ann'', get_user_raises = False,
      chat_member = Member_status (Some ''member''), now = 20,
      gate_has_had = (\<lambda>d u. False), gate_render_ok = True\<rparr>"

definition gate_session_example :: session where
  "gate_session_example =
     (let d = \<lparr>users = [7 \<mapsto> user_row_example], subscriptions = [],
                ad_trial_activated = Map.empty\<rparr>
      in \<lparr>committed = d, pending = d\<rparr>)"

definition empty_session_example :: session where
  "empty_session_example =
     (let d = \<lparr>users = Map.empty, subscriptions = [], ad_trial_activated = Map.empty\<rparr>
      in \<lparr>committed = d, pending = d\<rparr>)"

section \<open>The /start command (start.py)\<close>

subsection \<open>Deep-link payload\<close>

text \<open>
  The handler is registered four times, with the filters \<open>CommandStart()\<close> and
  \<open>CommandStart(magic=F.args.regexp(...))\<close> for the three patterns below; the patterns
  exclude one another, so the order of registration does not matter. The patterns are
  matched at the start of the argument and end in \<open>$\<close>, which also stands before one
  final line feed.
\<close>

datatype payload = No_payload | Ref string | Promo string | Ad string

definition ascii_digit :: "char \<Rightarrow> bool" where
  "ascii_digit c = (c \<in> set ''0123456789'')"

definition ascii_alnum :: "char \<Rightarrow> bool" where
  "ascii_alnum c =
     (c \<in> set ''0123456789abcdefghijklmnopqrstuvwxyzABCDEFGHIJKLMNOPQRSTUVWXYZ'')"

definition ref_token :: "string \<Rightarrow> bool" where
  \<comment> \<open>\<open>(?:[uU][A-Za-z0-9]{9})|(?:[A-Za-z0-9]{9})|\d+\<close>\<close>
  "ref_token g =
     ((case g of c # cs \<Rightarrow> (c = CHR ''u'' \<or> c = CHR ''U'') \<and> length cs = 9 \<and> list_all ascii_alnum cs
               | [] \<Rightarrow> False)
      \<or> (length g = 9 \<and> list_all ascii_alnum g)
      \<or> (g \<noteq> [] \<and> list_all ascii_digit g))"

definition promo_token :: "string \<Rightarrow> bool" where
  \<comment> \<open>\<open>\w+\<close>\<close>
  "promo_token g = (g \<noteq> [] \<and> list_all py_isword g)"

definition ad_token :: "string \<Rightarrow> bool" where
  \<comment> \<open>\<open>[A-Za-z0-9_\-]{2,64}\<close>\<close>
  "ad_token g =
     (2 \<le> length g \<and> length g \<le> 64
      \<and> list_all (\<lambda>c. ascii_alnum c \<or> c = CHR ''_'' \<or> c = CHR ''-'') g)"

definition before_dollar :: "(string \<Rightarrow> bool) \<Rightarrow> string \<Rightarrow> string option" where
  \<comment> \<open>the group matched by \<open>(token)$\<close> on the rest of the argument\<close>
  "before_dollar token g =
     (if token g then Some g
      else if g \<noteq> [] \<and> last g = CHR 0x0A \<and> token (butlast g) then Some (butlast g)
      else None)"

definition parse_start_args :: "string option \<Rightarrow> payload" where
  "parse_start_args args =
     (case args of
        None \<Rightarrow> No_payload
      | Some a \<Rightarrow>
          if starts_with ''ref_'' a then
            (case before_dollar ref_token (drop 4 a) of Some g \<Rightarrow> Ref g | None \<Rightarrow> No_payload)
          else if starts_with ''promo_'' a then
            (case before_dollar promo_token (drop 6 a) of Some g \<Rightarrow> Promo g | None \<Rightarrow> No_payload)
          else
            (case before_dollar ad_token a of Some g \<Rightarrow> Ad g | None \<Rightarrow> No_payload))"

subsection \<open>The handler\<close>

text \<open>
  Modelled from the spec: \<open>user_dal.create_user\<close> is not among the sources; by section
  4.5 it inserts the row and reports that it was created.
\<close>

definition create_user :: "db \<Rightarrow> int \<Rightarrow> user_row \<Rightarrow> db" where
  "create_user d uid row = d\<lparr>users := (users d)(uid \<mapsto> row)\<rparr>"

record start_env =
  gate :: gate_env
  LEGACY_REFS :: bool
  start_current_lang :: string
  sanitized_username :: "string option"
  sanitized_first :: "string option"
  sanitized_last :: "string option"
  get_user_by_referral_code :: "db \<Rightarrow> string \<Rightarrow> int option"
  has_active_subscription :: "db \<Rightarrow> int \<Rightarrow> bool option"
  create_user_raises :: bool
  ad_attribution :: "db \<Rightarrow> string \<Rightarrow> db option option"
  start_apply_promo :: "session \<Rightarrow> string \<Rightarrow> (session \<times> promo_outcome) option"
  start_active_details :: "subscription_details option"


definition str_isdigit :: "string \<Rightarrow> bool" where
  \<comment> \<open>\<open>str.isdigit()\<close>\<close>
  "str_isdigit s = (s \<noteq> [] \<and> list_all py_isdigit s)"



definition new_user_row :: "start_env \<Rightarrow> int option \<Rightarrow> user_row" where
  \<comment> \<open>the dictionary \<open>user_data\<close>\<close>
  "new_user_row env referred_by_user_id =
     \<lparr>username = sanitized_username env, first_name = sanitized_first env,
      last_name = sanitized_last env, language_code = Some (start_current_lang env),
      referred_by_id = referred_by_user_id,
      channel_subscription_verified = None, channel_subscription_verified_for = None,
      channel_subscription_checked_at = None,
      registration_date = Some (now (gate env))\<rparr>"

definition wants_referral :: "int option \<Rightarrow> user_row \<Rightarrow> bool" where
  \<comment> \<open>\<open>referred_by_user_id and db_user.referred_by_id is None\<close>\<close>
  "wants_referral referred_by_user_id u =
     (referred_by_user_id \<noteq> None \<and> referred_by_user_id \<noteq> Some 0 \<and> referred_by_id u = None)"

definition update_payload :: "start_env \<Rightarrow> db \<Rightarrow> int option \<Rightarrow> user_row \<Rightarrow> field_update list" where
  \<comment> \<open>the dictionary \<open>update_payload\<close> of the branch for a known user\<close>
  "update_payload env d referred_by_user_id u =
     (if language_code u \<noteq> Some (start_current_lang env)
      then [Set_language_code (start_current_lang env)] else [])
     @ (case referred_by_user_id of
          None \<Rightarrow> []
        | Some r \<Rightarrow>
            if wants_referral referred_by_user_id u
               \<and> has_active_subscription env d (from_user_id (gate env)) \<noteq> Some True
            then [Set_referred_by_id r] else [])
     @ (if sanitized_username env \<noteq> username u then [Set_username (sanitized_username env)] else [])
     @ (if sanitized_first env \<noteq> first_name u then [Set_first_name (sanitized_first env)] else [])
     @ (if sanitized_last env \<noteq> last_name u then [Set_last_name (sanitized_last env)] else [])"

definition register_or_update ::
  "start_env \<Rightarrow> int option \<Rightarrow> session \<Rightarrow> bool \<times> session \<times> event list" where
  \<comment> \<open>lines 264 to 316; the flag is false when the handler returns after a failed creation\<close>
  "register_or_update env referred_by_user_id s =
     (let user_id = from_user_id (gate env) in
      case get_user_by_id (pending s) user_id of
        None \<Rightarrow>
          if create_user_raises env then
            (False, s,
             [Call_get_user_by_id user_id, Call_create_user user_id,
              Answer (translate (gate env) ''error_occurred_processing_request'') No_markup])
          else
            (True,
             commit (s\<lparr>pending := create_user (pending s) user_id
                                     (new_user_row env referred_by_user_id)\<rparr>),
             [Call_get_user_by_id user_id, Call_create_user user_id, Commit,
              Notify_new_user_registration user_id (sanitized_username env)
                (sanitized_first env) referred_by_user_id])
      | Some u \<Rightarrow>
          (let p = update_payload env (pending s) referred_by_user_id u
           in (True,
               (if p \<noteq> [] then s\<lparr>pending := update_user (pending s) user_id p\<rparr> else s),
               [Call_get_user_by_id user_id]
               @ (if wants_referral referred_by_user_id u
                  then [Call_has_active_subscription user_id] else [])
               @ (if p \<noteq> [] then [Call_update_user user_id p] else []))))"









section \<open>Facts about the string helpers\<close>

lemma starts_with_append: "starts_with p (p @ s)"
  by (induction p) simp_all

lemma starts_with_iff: "starts_with p s \<longleftrightarrow> (\<exists>r. s = p @ r)"
proof (induction p s rule: starts_with.induct)
  case (1 s)
  then show ?case by simp
next
  case (2 p ps)
  then show ?case by simp
next
  case (3 p ps c cs)
  then show ?case by auto
qed

lemma py_in_iff: "py_in sub s \<longleftrightarrow> (\<exists>a b. s = a @ sub @ b)"
proof (induction s)
  case Nil
  then show ?case by auto
next
  case (Cons c cs)
  show ?case
  proof
    assume "py_in sub (c # cs)"
    then consider "starts_with sub (c # cs)" | "py_in sub cs" by auto
    then show "\<exists>a b. c # cs = a @ sub @ b"
    proof cases
      case 1
      then obtain r where "c # cs = sub @ r" by (auto simp: starts_with_iff)
      then have "c # cs = [] @ sub @ r" by simp
      then show ?thesis by blast
    next
      case 2
      then obtain a b where "cs = a @ sub @ b" using Cons.IH by blast
      then have "c # cs = (c # a) @ sub @ b" by simp
      then show ?thesis by blast
    qed
  next
    assume "\<exists>a b. c # cs = a @ sub @ b"
    then obtain a b where ab: "c # cs = a @ sub @ b" by blast
    show "py_in sub (c # cs)"
    proof (cases a)
      case Nil
      then have "starts_with sub (c # cs)" using ab by (auto simp: starts_with_iff)
      then show ?thesis by simp
    next
      case (Cons x xs)
      then have "cs = xs @ sub @ b" using ab by simp
      then have "py_in sub cs" using Cons.IH by blast
      then show ?thesis by simp
    qed
  qed
qed

lemma py_in_lower_iff:
  "py_in sub (py_lower s) \<longleftrightarrow> (\<exists>a w b. s = a @ w @ b \<and> py_lower w = sub)"
proof
  assume "py_in sub (py_lower s)"
  then obtain x y where "map lower_char s = x @ sub @ y"
    unfolding py_in_iff py_lower_def by blast
  then obtain a r where s: "s = a @ r" and "sub @ y = map lower_char r"
    unfolding map_eq_append_conv by blast
  then obtain w b where "r = w @ b" and "sub = map lower_char w"
    unfolding append_eq_map_conv by blast
  then show "\<exists>a w b. s = a @ w @ b \<and> py_lower w = sub"
    using s unfolding py_lower_def by blast
next
  assume "\<exists>a w b. s = a @ w @ b \<and> py_lower w = sub"
  then obtain a w b where "s = a @ w @ b" and "py_lower w = sub" by blast
  then have "py_lower s = py_lower a @ sub @ py_lower b"
    by (simp add: py_lower_def)
  then show "py_in sub (py_lower s)"
    unfolding py_in_iff by blast
qed

lemma is_yoomoney_network_iff:
  "is_yoomoney_network network \<longleftrightarrow>
     (\<exists>pre w post. network = Some (pre @ w @ post)
        \<and> py_lower w \<in> {''yoomoney'', ''yoo money'', ''yoo-money''})"
proof (cases network)
  case None
  then show ?thesis by (simp add: is_yoomoney_network_def or_str_def py_lower_def)
next
  case (Some n)
  have eq: "or_str network [] = n" using Some by (simp add: or_str_def)
  have "is_yoomoney_network network \<longleftrightarrow>
     (\<exists>a w b. n = a @ w @ b \<and> py_lower w = ''yoomoney'')
     \<or> (\<exists>a w b. n = a @ w @ b \<and> py_lower w = ''yoo money'')
     \<or> (\<exists>a w b. n = a @ w @ b \<and> py_lower w = ''yoo-money'')"
    by (simp only: is_yoomoney_network_def eq Let_def py_in_lower_iff)
  also have "\<dots> \<longleftrightarrow> (\<exists>a w b. n = a @ w @ b
        \<and> py_lower w \<in> {''yoomoney'', ''yoo money'', ''yoo-money''})"
    by blast
  finally show ?thesis using Some by simp
qed


section \<open>Payment-method titles: results\<close>

text \<open>
  Claim C9, as amended. A network is treated as a wallet exactly when, lower-cased, it
  contains one of the three spellings, so every letter case of a spelling is accepted.
  The wallet title then carries the stored last four digits when they are known;
  otherwise the last four of all the digits of the network string, read in order across
  every run of digits, when there are at least four; otherwise four asterisks. A network
  that is not a wallet gets the card title (network and last four) when the last four are
  known, and the generic title otherwise, each with its placeholder for a missing network.
\<close>

theorem format_pm_title_cases:
  "(is_yoomoney_network network \<longleftrightarrow>
      (\<exists>pre w post. network = Some (pre @ w @ post)
         \<and> py_lower w \<in> {''yoomoney'', ''yoo money'', ''yoo-money''}))
   \<and> (is_yoomoney_network network \<longrightarrow>
        format_pm_title network last4 =
          Get_text ''payment_method_wallet_title''
            [(''last4'', Lit
               (if truthy last4 then or_str last4 []
                else let ds = filter py_isdigit (or_str network [])
                     in if 4 \<le> length ds then drop (length ds - 4) ds else ''****''))])
   \<and> (\<not> is_yoomoney_network network \<and> truthy last4 \<longrightarrow>
        format_pm_title network last4 =
          Get_text ''payment_method_card_title''
            [(''network'',
              if truthy network then Lit (or_str network [])
              else Get_text ''payment_network_card'' [(''default'', Lit ''Card'')]),
             (''last4'', Lit (or_str last4 []))])
   \<and> (\<not> is_yoomoney_network network \<and> \<not> truthy last4 \<longrightarrow>
        format_pm_title network last4 =
          Get_text ''payment_method_generic_title''
            [(''network'',
              if truthy network then Lit (or_str network [])
              else Get_text ''payment_network_generic''
                     [(''default'', Lit ''Payment method'')])])"
proof (intro conjI impI)
  show "is_yoomoney_network network \<longleftrightarrow>
      (\<exists>pre w post. network = Some (pre @ w @ post)
         \<and> py_lower w \<in> {''yoomoney'', ''yoo money'', ''yoo-money''})"
    by (rule is_yoomoney_network_iff)
next
  assume y: "is_yoomoney_network network"
  show "format_pm_title network last4 =
          Get_text ''payment_method_wallet_title''
            [(''last4'', Lit
               (if truthy last4 then or_str last4 []
                else let ds = filter py_isdigit (or_str network [])
                     in if 4 \<le> length ds then drop (length ds - 4) ds else ''****''))]"
  proof (cases "truthy last4")
    case True
    then show ?thesis using y
      by (auto simp: format_pm_title_def py_or_def truthy_def or_str_def split: option.splits)
  next
    case False
    then have "py_or last4 (extract_last4 (or_str network [])) = extract_last4 (or_str network [])"
      by (simp add: py_or_def)
    then show ?thesis using y False
      by (auto simp: format_pm_title_def extract_last4_def Let_def)
  qed
next
  assume "\<not> is_yoomoney_network network \<and> truthy last4"
  then show "format_pm_title network last4 =
          Get_text ''payment_method_card_title''
            [(''network'',
              if truthy network then Lit (or_str network [])
              else Get_text ''payment_network_card'' [(''default'', Lit ''Card'')]),
             (''last4'', Lit (or_str last4 []))]"
    by (auto simp: format_pm_title_def truthy_def or_str_def split: option.splits)
next
  assume "\<not> is_yoomoney_network network \<and> \<not> truthy last4"
  then show "format_pm_title network last4 =
          Get_text ''payment_method_generic_title''
            [(''network'',
              if truthy network then Lit (or_str network [])
              else Get_text ''payment_network_generic''
                     [(''default'', Lit ''Payment method'')])]"
    by (auto simp: format_pm_title_def truthy_def or_str_def split: option.splits)
qed

text \<open>Evaluation of the character functions on literals.\<close>

lemma eq_char_of_iff: "c = char_of n \<longleftrightarrow> take_bit 8 n = (of_char c :: nat)"
  using char_of_eq_iff [of n c] by auto

lemmas str_eval = char_of_eq_iff eq_char_of_iff
  py_isdigit_def py_isspace_def py_isword_def lower_char_def py_lower_def upper_char_def
  py_upper_def py_strip_def truthy_def py_or_def or_str_def

text \<open>The theorem of C9 at three saved methods: a wallet, a card and an unnamed method.\<close>

theorem format_pm_title_cases_witness:
  "is_yoomoney_network (Some ''My Yoo-Money 12 345'')
   \<and> format_pm_title (Some ''My Yoo-Money 12 345'') None =
       Get_text ''payment_method_wallet_title'' [(''last4'', Lit ''2345'')]
   \<and> format_pm_title (Some ''Visa'') (Some ''4242'') =
       Get_text ''payment_method_card_title''
         [(''network'', Lit ''Visa''), (''last4'', Lit ''4242'')]
   \<and> format_pm_title None None =
       Get_text ''payment_method_generic_title''
         [(''network'', Get_text ''payment_network_generic''
                          [(''default'', Lit ''Payment method'')])]"
proof -
  have y: "is_yoomoney_network (Some ''My Yoo-Money 12 345'')"
    by (simp add: is_yoomoney_network_def str_eval)
  have n1: "\<not> is_yoomoney_network (Some ''Visa'')"
    by (simp add: is_yoomoney_network_def str_eval)
  have n2: "\<not> is_yoomoney_network None"
    by (simp add: is_yoomoney_network_def str_eval)
  show ?thesis
    using y n1 n2
      format_pm_title_cases [of "Some ''My Yoo-Money 12 345''" None]
      format_pm_title_cases [of "Some ''Visa''" "Some ''4242''"]
      format_pm_title_cases [of None None]
    by (simp add: str_eval)
qed

text \<open>
  C9 as stated fails: for the network \<open>yoomoney 12345 67\<close> the longest run of digits is
  \<open>12345\<close>, whose last four are \<open>2345\<close>, while the title carries \<open>4567\<close>.
\<close>

theorem format_pm_title_longest_run_counterexample:
  "format_pm_title (Some ''yoomoney 12345 67'') None =
     Get_text ''payment_method_wallet_title'' [(''last4'', Lit ''4567'')]
   \<and> spec_last4_longest_run ''yoomoney 12345 67'' = ''2345''
   \<and> format_pm_title (Some ''yoomoney 12345 67'') None \<noteq>
     Get_text ''payment_method_wallet_title''
       [(''last4'', Lit (spec_last4_longest_run ''yoomoney 12345 67''))]"
  by (simp add: format_pm_title_def is_yoomoney_network_def extract_last4_def
      spec_last4_longest_run_def str_eval)

text \<open>Evaluation of the promo handler on literals.\<close>

lemmas promo_eval =
  process_promo_code_input_def code_input_of_def is_suspicious_def re_search_def
  match_here_def at_boundary_def SUSPICIOUS_SQL_KEYWORDS_REGEX_def SUSPICIOUS_CHARS_REGEX_def
  MAX_PROMO_CODE_INPUT_LENGTH_def config_link_or_placeholder_def

lemma py_upper_Nil: "py_upper [] = []"
  by (simp add: py_upper_def)

section \<open>Promo-code input: results\<close>

text \<open>
  Claim C4, as amended. With the text service and the promo service present, let
  \<open>code\<close> be the submitted text after \<open>strip()\<close>. If \<open>code\<close> is empty, or longer than
  100 characters, or matched by the keyword pattern (a listed keyword in any letter case,
  standing between word boundaries), or by the character pattern (\<open>--\<close>, \<open>#\<close> followed by
  white space, \<open>;\<close>, \<open>*/\<close>, \<open>/*\<close>), then the promo service is not called, nothing is
  committed, the reply is the "not found" text with the upper-cased \<open>code\<close>, and the
  captured-input state is cleared last. The upper-cased text is what \<open>str.upper\<close> gives,
  code point by code point.
\<close>

theorem process_promo_code_input_rejects:
  assumes deps: "i18n_present env \<and> promo_service_present env"
    and code: "code = code_input_of (msg_text m)"
    and bad: "code = [] \<or> 100 < length code
              \<or> re_search SUSPICIOUS_SQL_KEYWORDS_REGEX code
              \<or> re_search SUSPICIOUS_CHARS_REGEX code"
  shows "(\<forall>u c l. Call_apply_promo_code u c l \<notin> set (process_promo_code_input env m))
       \<and> Answer (Get_text ''promo_code_not_found'' [(''code'', Hcode (py_upper code))])
            Back_to_main_menu_markup \<in> set (process_promo_code_input env m)
       \<and> Commit \<notin> set (process_promo_code_input env m)
       \<and> last (process_promo_code_input env m) = State_clear"
proof -
  have s: "is_suspicious code"
    using bad by (auto simp: is_suspicious_def MAX_PROMO_CODE_INPUT_LENGTH_def)
  have u: "(if code \<noteq> [] then Hcode (py_upper code) else Hcode []) = Hcode (py_upper code)"
    by (simp add: py_upper_Nil)
  show ?thesis
    using deps s u by (simp add: process_promo_code_input_def code [symmetric] Let_def)
qed


text \<open>
  The theorem of C4 at the input \<open>x Drop  Table!\<close>, and at a micro sign followed by a
  semicolon, whose upper-case form is the Greek capital mu, code point 924.
\<close>

theorem process_promo_code_input_rejects_witness:
  "(\<forall>u c l. Call_apply_promo_code u c l
       \<notin> set (process_promo_code_input promo_env_example (promo_message_example '' x Drop  Table! '')))
   \<and> Answer (Get_text ''promo_code_not_found''
                [(''code'', Hcode (code_points ''X DROP  TABLE!''))])
        Back_to_main_menu_markup
       \<in> set (process_promo_code_input promo_env_example (promo_message_example '' x Drop  Table! ''))
   \<and> Commit \<notin> set (process_promo_code_input promo_env_example (promo_message_example '' x Drop  Table! ''))
   \<and> last (process_promo_code_input promo_env_example (promo_message_example '' x Drop  Table! ''))
       = State_clear
   \<and> Answer (Get_text ''promo_code_not_found'' [(''code'', Hcode [924, 59])])
        Back_to_main_menu_markup
       \<in> set (process_promo_code_input promo_env_example
                (promo_message_example [char_of (181 :: nat), CHR '';'']))"
proof -
  let ?micro = "[char_of (181 :: nat), CHR '';'']"
  have deps: "i18n_present promo_env_example \<and> promo_service_present promo_env_example"
    by (simp add: promo_env_example_def)
  have code: "''x Drop  Table!'' = code_input_of (msg_text (promo_message_example '' x Drop  Table! ''))"
    by (simp add: promo_message_example_def code_input_of_def str_eval)
  have bad: "''x Drop  Table!'' = [] \<or> 100 < length ''x Drop  Table!''
      \<or> re_search SUSPICIOUS_SQL_KEYWORDS_REGEX ''x Drop  Table!''
      \<or> re_search SUSPICIOUS_CHARS_REGEX ''x Drop  Table!''"
    by (simp add: promo_eval str_eval)
  have up: "py_upper ''x Drop  Table!'' = code_points ''X DROP  TABLE!''"
    by (simp add: str_eval code_points_def)
  have mcode: "?micro = code_input_of (msg_text (promo_message_example ?micro))"
    by (simp add: promo_message_example_def code_input_of_def str_eval)
  have mbad: "?micro = [] \<or> 100 < length ?micro
      \<or> re_search SUSPICIOUS_SQL_KEYWORDS_REGEX ?micro
      \<or> re_search SUSPICIOUS_CHARS_REGEX ?micro"
    by (simp add: promo_eval str_eval)
  have mup: "py_upper ?micro = [924, 59]"
    by (simp add: str_eval)
  show ?thesis
    using process_promo_code_input_rejects [OF deps code bad]
      process_promo_code_input_rejects [OF deps mcode mbad]
    by (simp add: up mup)
qed

text \<open>
  C4 as stated fails twice. The text \<open>XDROP TABLE\<close> contains the keyword \<open>DROP TABLE\<close>,
  but not between word boundaries, and it reaches the promo service. The text \<open>A#\<close>
  followed by a blank contains \<open>#\<close> and a blank, which \<open>strip()\<close> removes before the
  patterns are tried, and it reaches the promo service as \<open>A#\<close>.
\<close>

theorem promo_keyword_inside_word_counterexample:
  "py_in ''DROP TABLE'' ''XDROP TABLE''
   \<and> Call_apply_promo_code 7 ''XDROP TABLE'' ''en''
       \<in> set (process_promo_code_input promo_env_example (promo_message_example ''XDROP TABLE''))
   \<and> py_in ''# '' ''A# ''
   \<and> Call_apply_promo_code 7 ''A#'' ''en''
       \<in> set (process_promo_code_input promo_env_example (promo_message_example ''A# ''))"
  by (simp add: promo_eval str_eval promo_env_example_def promo_message_example_def)


section \<open>Trial activation: results\<close>

lemma send_main_menu_no_activation:
  "Call_activate_trial_subscription u \<notin> set (send_main_menu c e)"
  by (simp add: send_main_menu_def Let_def)

text \<open>
  Claim C2, as amended. Both entry actions run the same routine. For a user for whom
  \<open>has_had_any_subscription\<close> holds, that routine never calls
  \<open>activate_trial_subscription\<close> and leaves the session as it was. When the text
  service and the message of the callback are present, it shows one alert (the "already
  had a subscription or trial" alert, or the "trial disabled" alert when the feature is
  off) and then re-renders the main menu, by editing the message, without the trial
  button. When the text service or the message is missing, its only action is the
  generic error alert: the translated text when the text service is there, the bare key
  otherwise.
\<close>

theorem trial_rejected_after_any_subscription:
  assumes had: "has_had_any_subscription env (pending s) (caller_id env)"
  shows "request_trial_confirmation_handler env s = activate_trial env True s
       \<and> confirm_activate_trial_handler env s = activate_trial env True s
       \<and> fst (activate_trial env n s) = s
       \<and> (\<forall>u. Call_activate_trial_subscription u \<notin> set (snd (activate_trial env n s)))
       \<and> (trial_i18n env \<and> callback_has_message env \<longrightarrow>
            snd (activate_trial env n s) =
              (if TRIAL_ENABLED env
               then [Call_has_had_any_subscription (caller_id env),
                     Alert (Get_text ''trial_already_had_subscription_or_trial'' [])]
               else [Alert (Get_text ''trial_feature_disabled'' [])])
              @ send_main_menu (trial_menu env s) True
            \<and> Edit_text (Get_text ''main_menu_greeting''
                           [(''user_name'', Quote (caller_full_name env))])
                 (Main_menu_inline_keyboard False)
                \<in> set (snd (activate_trial env n s)))
       \<and> (\<not> trial_i18n env \<or> \<not> callback_has_message env \<longrightarrow>
            snd (activate_trial env n s) =
              [Alert (if trial_i18n env then Get_text ''error_occurred_try_again'' []
                      else Lit ''error_occurred_try_again'')])"
proof (intro conjI allI impI)
  show "request_trial_confirmation_handler env s = activate_trial env True s"
    by (simp add: request_trial_confirmation_handler_def)
  show "confirm_activate_trial_handler env s = activate_trial env True s"
    by (simp add: confirm_activate_trial_handler_def)
  show "fst (activate_trial env n s) = s"
    using had by (simp add: activate_trial_def Let_def)
  show "Call_activate_trial_subscription u \<notin> set (snd (activate_trial env n s))" for u
    using had by (simp add: activate_trial_def Let_def send_main_menu_no_activation)
next
  assume ok: "trial_i18n env \<and> callback_has_message env"
  show "snd (activate_trial env n s) =
              (if TRIAL_ENABLED env
               then [Call_has_had_any_subscription (caller_id env),
                     Alert (Get_text ''trial_already_had_subscription_or_trial'' [])]
               else [Alert (Get_text ''trial_feature_disabled'' [])])
              @ send_main_menu (trial_menu env s) True"
    using had ok by (simp add: activate_trial_def Let_def)
  have "Edit_text (Get_text ''main_menu_greeting''
                           [(''user_name'', Quote (caller_full_name env))])
                 (Main_menu_inline_keyboard False)
          \<in> set (send_main_menu (trial_menu env s) True)"
    using had ok by (simp add: send_main_menu_def trial_menu_def main_menu_text_def Let_def)
  then show "Edit_text (Get_text ''main_menu_greeting''
                           [(''user_name'', Quote (caller_full_name env))])
                 (Main_menu_inline_keyboard False)
                \<in> set (snd (activate_trial env n s))"
    using had ok by (simp add: activate_trial_def Let_def)
next
  assume "\<not> trial_i18n env \<or> \<not> callback_has_message env"
  then show "snd (activate_trial env n s) =
              [Alert (if trial_i18n env then Get_text ''error_occurred_try_again'' []
                      else Lit ''error_occurred_try_again'')]"
    by (simp add: activate_trial_def Let_def)
qed

text \<open>
  Claim C7. The activation service has returned a successful activation and has left the
  session clean, so what it wrote is committed. If then the marking of the ad attribution
  fails, either in \<open>mark_trial_activated\<close> or in the commit after it, the handler rolls
  back and the session is again exactly as the activation service left it: the committed
  grant is untouched and only the marking is absent. The flow goes on: the "activated"
  alert has been shown, and the details of the trial are rendered with the connect
  keyboard as the last step.
\<close>

theorem trial_marking_failure_keeps_grant:
  assumes ok: "trial_i18n env \<and> callback_has_message env \<and> TRIAL_ENABLED env"
    and fresh: "\<not> has_had_any_subscription env (pending s) (caller_id env)"
    and act: "activate_trial_subscription env s (caller_id env) = (s1, Some r)"
    and yes: "activated r"
    and clean: "pending s1 = committed s1"
    and fails: "mark_trial_activated env (pending s1) (caller_id env) = None \<or> \<not> commit_ok env"
  shows "fst (activate_trial env n s) = s1
       \<and> snd (activate_trial env n s) =
           [Call_has_had_any_subscription (caller_id env),
            Call_activate_trial_subscription (caller_id env),
            Alert (Get_text ''trial_activated_alert'' [])]
           @ (if n then [Notify_trial_activation (caller_id env) (end_date r)] else [])
           @ [Call_mark_trial_activated (caller_id env)]
           @ (if mark_trial_activated env (pending s1) (caller_id env) = None
              then [Rollback] else [Commit, Rollback])
           @ render_result env (trial_details_text env r (trial_config_link (Some r)))
               (Connect_and_main_keyboard (trial_config_link (Some r)))"
proof -
  have s1: "rollback s1 = s1"
    using clean by (simp add: rollback_def)
  have s2: "rollback (s1\<lparr>pending := d\<rparr>) = s1" for d
    using clean by (simp add: rollback_def)
  show ?thesis
    using ok fresh act yes fails
    by (auto simp: activate_trial_def Let_def s1 s2 split: option.splits)
qed

text \<open>
  The hypothesis on the activation service matters: whatever the service left uncommitted
  is discarded by the same rollback.
\<close>

lemma trial_marking_failure_discards_uncommitted:
  assumes ok: "trial_i18n env \<and> callback_has_message env \<and> TRIAL_ENABLED env"
    and fresh: "\<not> has_had_any_subscription env (pending s) (caller_id env)"
    and act: "activate_trial_subscription env s (caller_id env) = (s1, Some r)"
    and yes: "activated r"
    and fails: "mark_trial_activated env (pending s1) (caller_id env) = None \<or> \<not> commit_ok env"
  shows "pending (fst (activate_trial env n s)) = committed s1
       \<and> committed (fst (activate_trial env n s)) = committed s1"
  using ok fresh act yes fails
  by (auto simp: activate_trial_def Let_def rollback_def split: option.splits)

text \<open>Evaluation of the trial handler on literals.\<close>

lemmas trial_eval =
  activate_trial_def send_main_menu_def trial_menu_def main_menu_text_def render_result_def
  trial_details_text_def trial_config_link_def request_trial_confirmation_handler_def
  confirm_activate_trial_handler_def spec_has_had_any_subscription_def
  fresh_subscription_id_def spec_activate_trial_subscription_def spec_mark_trial_activated_def
  commit_def rollback_def db_example_def session_example_def datetime_example_def
  trial_env_example_def session_with_trial_example_def Let_def

text \<open>
  The theorem of C2 for a user who holds a trial row: with text service and message, without
  the message, and without the text service.
\<close>

theorem trial_rejected_after_any_subscription_witness:
  "fst (activate_trial trial_env_example True session_with_trial_example)
     = session_with_trial_example
   \<and> (\<forall>u. Call_activate_trial_subscription u
           \<notin> set (snd (activate_trial trial_env_example True session_with_trial_example)))
   \<and> snd (request_trial_confirmation_handler trial_env_example session_with_trial_example) =
       [Call_has_had_any_subscription 7,
        Alert (Get_text ''trial_already_had_subscription_or_trial'' []),
        Call_has_had_any_subscription 7,
        Edit_text (Get_text ''main_menu_greeting'' [(''user_name'', Quote ''Ann'')])
          (Main_menu_inline_keyboard False),
        Ack]
   \<and> snd (confirm_activate_trial_handler trial_env_example session_with_trial_example) =
       [Call_has_had_any_subscription 7,
        Alert (Get_text ''trial_already_had_subscription_or_trial'' []),
        Call_has_had_any_subscription 7,
        Edit_text (Get_text ''main_menu_greeting'' [(''user_name'', Quote ''Ann'')])
          (Main_menu_inline_keyboard False),
        Ack]
   \<and> snd (activate_trial (trial_env_example\<lparr>callback_has_message := False\<rparr>) True
            session_with_trial_example)
       = [Alert (Get_text ''error_occurred_try_again'' [])]
   \<and> snd (activate_trial (trial_env_example\<lparr>trial_i18n := False\<rparr>) True
            session_with_trial_example)
       = [Alert (Lit ''error_occurred_try_again'')]"
proof -
  have had: "has_had_any_subscription trial_env_example (pending session_with_trial_example)
               (caller_id trial_env_example)"
    by (simp add: trial_env_example_def session_with_trial_example_def
        spec_has_had_any_subscription_def db_example_def Let_def)
  have hadm: "has_had_any_subscription (trial_env_example\<lparr>callback_has_message := False\<rparr>)
               (pending session_with_trial_example)
               (caller_id (trial_env_example\<lparr>callback_has_message := False\<rparr>))"
    and hadi: "has_had_any_subscription (trial_env_example\<lparr>trial_i18n := False\<rparr>)
               (pending session_with_trial_example)
               (caller_id (trial_env_example\<lparr>trial_i18n := False\<rparr>))"
    by (simp_all add: trial_env_example_def session_with_trial_example_def
        spec_has_had_any_subscription_def db_example_def Let_def)
  have e: "trial_i18n trial_env_example \<and> callback_has_message trial_env_example"
    "TRIAL_ENABLED trial_env_example" "caller_id trial_env_example = 7"
    by (simp_all add: trial_env_example_def)
  have m: "send_main_menu (trial_menu trial_env_example session_with_trial_example) True =
       [Call_has_had_any_subscription 7,
        Edit_text (Get_text ''main_menu_greeting'' [(''user_name'', Quote ''Ann'')])
          (Main_menu_inline_keyboard False),
        Ack]"
    using had by (simp add: send_main_menu_def trial_menu_def main_menu_text_def
        trial_env_example_def)
  show ?thesis
    using trial_rejected_after_any_subscription [OF had, of True]
      trial_rejected_after_any_subscription [OF hadm, of True]
      trial_rejected_after_any_subscription [OF hadi, of True] e m
    by simp
qed

text \<open>
  C2 as stated fails for a callback that carries no message, and for a run without the
  text service: the user has had a subscription, the request is refused with the generic
  error alert, and no main menu is rendered, by either entry action.
\<close>

theorem trial_rejected_without_menu_counterexample:
  "has_had_any_subscription (trial_env_example\<lparr>callback_has_message := False\<rparr>)
     (pending session_with_trial_example) 7
   \<and> snd (request_trial_confirmation_handler
            (trial_env_example\<lparr>callback_has_message := False\<rparr>) session_with_trial_example)
     = [Alert (Get_text ''error_occurred_try_again'' [])]
   \<and> snd (confirm_activate_trial_handler
            (trial_env_example\<lparr>callback_has_message := False\<rparr>) session_with_trial_example)
     = [Alert (Get_text ''error_occurred_try_again'' [])]
   \<and> has_had_any_subscription (trial_env_example\<lparr>trial_i18n := False\<rparr>)
     (pending session_with_trial_example) 7
   \<and> snd (request_trial_confirmation_handler
            (trial_env_example\<lparr>trial_i18n := False\<rparr>) session_with_trial_example)
     = [Alert (Lit ''error_occurred_try_again'')]
   \<and> snd (confirm_activate_trial_handler
            (trial_env_example\<lparr>trial_i18n := False\<rparr>) session_with_trial_example)
     = [Alert (Lit ''error_occurred_try_again'')]"
  by (simp add: trial_eval)

text \<open>
  The theorem of C7 with the modelled services: the commit after the marking fails, and
  the trial row written by the activation is still there, committed.
\<close>

theorem trial_marking_failure_keeps_grant_witness:
  "subscriptions (committed (fst (activate_trial trial_env_example True session_example)))
     = [(1, \<lparr>sub_user_id = 7, provider = Some ''trial'', auto_renew_enabled = False\<rparr>)]
   \<and> subscriptions (pending (fst (activate_trial trial_env_example True session_example)))
     = [(1, \<lparr>sub_user_id = 7, provider = Some ''trial'', auto_renew_enabled = False\<rparr>)]
   \<and> ad_trial_activated (pending (fst (activate_trial trial_env_example True session_example))) 7
     = Some False
   \<and> snd (activate_trial trial_env_example True session_example) =
       [Call_has_had_any_subscription 7,
        Call_activate_trial_subscription 7,
        Alert (Get_text ''trial_activated_alert'' []),
        Notify_trial_activation 7 (Some datetime_example),
        Call_mark_trial_activated 7,
        Commit,
        Rollback,
        Edit_text
          (Get_text ''trial_activated_details_message''
             [(''days'', Num 3),
              (''end_date'', Strftime ''%Y-%m-%d'' datetime_example),
              (''config_link'', Get_text ''config_link_not_available'' []),
              (''traffic_gb'', Get_text ''traffic_unlimited'' [])])
          (Connect_and_main_keyboard (Get_text ''config_link_not_available'' []))]"
proof -
  let ?r = "\<lparr>activated = True, end_date = Some datetime_example, subscription_url = None,
             days = None, traffic_gb = None, message_key = None\<rparr>"
  let ?s1 = "fst (spec_activate_trial_subscription datetime_example session_example 7)"
  have ok: "trial_i18n trial_env_example \<and> callback_has_message trial_env_example
      \<and> TRIAL_ENABLED trial_env_example"
    by (simp add: trial_env_example_def)
  have fresh: "\<not> has_had_any_subscription trial_env_example (pending session_example)
                   (caller_id trial_env_example)"
    by (simp add: trial_env_example_def session_example_def db_example_def
        spec_has_had_any_subscription_def)
  have act: "activate_trial_subscription trial_env_example session_example
               (caller_id trial_env_example) = (?s1, Some ?r)"
    by (simp add: trial_env_example_def session_example_def db_example_def
        spec_has_had_any_subscription_def spec_activate_trial_subscription_def Let_def)
  have yes: "activated ?r" by simp
  have clean: "pending ?s1 = committed ?s1"
    by (simp add: session_example_def db_example_def commit_def
        spec_has_had_any_subscription_def spec_activate_trial_subscription_def Let_def)
  have fails: "mark_trial_activated trial_env_example (pending ?s1) (caller_id trial_env_example)
                 = None \<or> \<not> commit_ok trial_env_example"
    by (simp add: trial_env_example_def)
  have mark: "mark_trial_activated trial_env_example (pending ?s1) (caller_id trial_env_example)
                 \<noteq> None"
    by (simp add: trial_env_example_def spec_mark_trial_activated_def)
  have s1: "subscriptions (committed ?s1)
              = [(1, \<lparr>sub_user_id = 7, provider = Some ''trial'', auto_renew_enabled = False\<rparr>)]"
    "subscriptions (pending ?s1)
              = [(1, \<lparr>sub_user_id = 7, provider = Some ''trial'', auto_renew_enabled = False\<rparr>)]"
    "ad_trial_activated (pending ?s1) 7 = Some False"
    by (simp_all add: session_example_def db_example_def commit_def fresh_subscription_id_def
        spec_has_had_any_subscription_def spec_activate_trial_subscription_def Let_def)
  have e: "caller_id trial_env_example = 7" "edit_text_ok trial_env_example"
    "TRIAL_DURATION_DAYS trial_env_example = 3" "TRIAL_TRAFFIC_LIMIT_GB trial_env_example = 0"
    by (simp_all add: trial_env_example_def)
  show ?thesis
    using trial_marking_failure_keeps_grant [OF ok fresh act yes clean fails, of True] mark s1
    by (simp add: e render_result_def trial_details_text_def trial_config_link_def)
qed

section \<open>Auto-renew confirmation: results\<close>

text \<open>
  Claim C3. A confirm request that parses, for a subscription that exists and belongs to
  the caller: when the provider is \<open>tribute\<close> the handler answers with the "not
  supported" alert and does nothing else, in particular it does not ask whether the user
  has a saved payment method; otherwise, when enabling is requested and the user has no
  saved payment method, it answers with the "requires card" alert. In both cases the
  session is returned unchanged: no update of the subscription and no commit. Without
  the text service the alert is not sent, the handler raises in its place; the request is
  rejected all the same.
\<close>

theorem confirm_autorenew_guard:
  assumes p: "parse_confirm data = Some (sub_id, enable)"
    and g: "map_of (subscriptions (pending s)) sub_id = Some sub"
    and own: "sub_user_id sub = autorenew_caller_id env"
  shows "(provider sub = Some ''tribute'' \<longrightarrow>
            confirm_autorenew_handler env data s =
              (s, [if autorenew_i18n env
                   then Alert (Get_text ''subscription_autorenew_not_supported_for_tribute'' [])
                   else Raised ''AttributeError'']))
       \<and> (provider sub \<noteq> Some ''tribute'' \<and> enable
            \<and> \<not> user_has_saved_payment_method env (pending s) (autorenew_caller_id env) \<longrightarrow>
            confirm_autorenew_handler env data s =
              (s, [Call_user_has_saved_payment_method (autorenew_caller_id env),
                   if autorenew_i18n env
                   then Alert (Get_text ''autorenew_enable_requires_card'' [])
                   else Raised ''AttributeError'']))"
  using p g own by (simp add: confirm_autorenew_handler_def autorenew_alert_def)

text \<open>Evaluation of the auto-renew handler on literals.\<close>

lemmas autorenew_eval =
  confirm_autorenew_handler_def autorenew_alert_def parse_confirm_def py_int_def int_strip_def
  int_isspace_def update_subscription_auto_renew_def
  autorenew_session_example_def autorenew_env_example_def commit_def Let_def

text \<open>
  The identifier is read by \<open>int()\<close>, which does not skip the separator U+001F: such a
  request is answered with the error alert although \<open>strip()\<close> would remove the character.
\<close>

lemma confirm_autorenew_separator:
  "py_strip [char_of (31 :: nat), CHR ''6''] = ''6''
   \<and> py_int [char_of (31 :: nat), CHR ''6''] = None
   \<and> confirm_autorenew_handler autorenew_env_example
        (''autorenew:confirm:'' @ [char_of (31 :: nat)] @ ''6:1'') autorenew_session_example =
     (autorenew_session_example, [Alert (Get_text ''error_try_again'' [])])"
  by (simp add: autorenew_eval str_eval)

text \<open>
  The theorem of C3 at a Tribute subscription and at a user without a card, with and
  without the text service.
\<close>

theorem confirm_autorenew_guard_witness:
  "confirm_autorenew_handler autorenew_env_example ''autorenew:confirm:6:1''
       autorenew_session_example =
     (autorenew_session_example,
      [Alert (Get_text ''subscription_autorenew_not_supported_for_tribute'' [])])
   \<and> confirm_autorenew_handler autorenew_env_example ''autorenew:confirm:5:1''
       autorenew_session_example =
     (autorenew_session_example,
      [Call_user_has_saved_payment_method 7,
       Alert (Get_text ''autorenew_enable_requires_card'' [])])
   \<and> confirm_autorenew_handler (autorenew_env_example\<lparr>autorenew_i18n := False\<rparr>)
       ''autorenew:confirm:6:1'' autorenew_session_example =
     (autorenew_session_example, [Raised ''AttributeError''])
   \<and> confirm_autorenew_handler (autorenew_env_example\<lparr>autorenew_i18n := False\<rparr>)
       ''autorenew:confirm:5:1'' autorenew_session_example =
     (autorenew_session_example,
      [Call_user_has_saved_payment_method 7, Raised ''AttributeError''])"
proof -
  let ?t = "\<lparr>sub_user_id = 7, provider = Some ''tribute'', auto_renew_enabled = False\<rparr>"
  let ?y = "\<lparr>sub_user_id = 7, provider = Some ''yookassa'', auto_renew_enabled = False\<rparr>"
  let ?n = "autorenew_env_example\<lparr>autorenew_i18n := False\<rparr>"
  have p6: "parse_confirm ''autorenew:confirm:6:1'' = Some (6, True)"
    by (simp add: parse_confirm_def py_int_def int_strip_def int_isspace_def str_eval)
  have p5: "parse_confirm ''autorenew:confirm:5:1'' = Some (5, True)"
    by (simp add: parse_confirm_def py_int_def int_strip_def int_isspace_def str_eval)
  have g6: "map_of (subscriptions (pending autorenew_session_example)) 6 = Some ?t"
    by (simp add: autorenew_session_example_def Let_def)
  have g5: "map_of (subscriptions (pending autorenew_session_example)) 5 = Some ?y"
    by (simp add: autorenew_session_example_def Let_def)
  have o6: "sub_user_id ?t = autorenew_caller_id autorenew_env_example"
    and n6: "sub_user_id ?t = autorenew_caller_id ?n"
    by (simp_all add: autorenew_env_example_def)
  have o5: "sub_user_id ?y = autorenew_caller_id autorenew_env_example"
    and n5: "sub_user_id ?y = autorenew_caller_id ?n"
    by (simp_all add: autorenew_env_example_def)
  have e: "autorenew_caller_id autorenew_env_example = 7"
    "autorenew_i18n autorenew_env_example"
    "\<not> user_has_saved_payment_method autorenew_env_example
         (pending autorenew_session_example) 7"
    by (simp_all add: autorenew_env_example_def)
  show ?thesis
    using confirm_autorenew_guard [OF p6 g6 o6] confirm_autorenew_guard [OF p5 g5 o5]
      confirm_autorenew_guard [OF p6 g6 n6] confirm_autorenew_guard [OF p5 g5 n5] e
    by simp
qed

section \<open>Card binding: results\<close>

text \<open>
  Claim C8, as amended. With autopayments enabled, every \<open>pm:bind\<close> request first asks
  the gateway for a payment of 1.00 in the currency \<open>RUB\<close>, whatever the configuration
  says, with capture disabled, saving of the payment method requested, the bind-only
  mark, the configured receipt e-mail, and metadata carrying the caller's id and the bind
  marker. When the answer has no confirmation URL, the handler shows the gateway-error
  alert and renders no screen.
\<close>

theorem payment_method_bind_request:
  assumes on: "YOOKASSA_AUTOPAYMENTS_ENABLED env"
  shows "hd (payment_method_bind env) =
           Call_create_payment
             \<lparr>amount_hundredths = 100, currency = ''RUB'', description = ''Bind card'',
              metadata = [(''user_id'', Num (bind_caller_id env)), (''bind_only'', Lit ''1'')],
              receipt_email = YOOKASSA_DEFAULT_RECEIPT_EMAIL env,
              save_payment_method = True, capture = False, bind_only = True\<rparr>
       \<and> count_list (map (\<lambda>e. case e of Call_create_payment _ \<Rightarrow> True | _ \<Rightarrow> False)
                        (payment_method_bind env)) True = 1
       \<and> ((case create_payment env (bind_request env) of
              None \<Rightarrow> True
            | Some r \<Rightarrow> confirmation_url r = None \<or> confirmation_url r = Some []) \<longrightarrow>
            payment_method_bind env =
              [Call_create_payment (bind_request env),
               Alert (bind_text env ''error_payment_gateway'')])"
  using on
  by (auto simp: payment_method_bind_def bind_request_def Let_def split: option.splits)

theorem payment_method_bind_request_witness:
  "payment_method_bind bind_env_example =
     [Call_create_payment
        \<lparr>amount_hundredths = 100, currency = ''RUB'', description = ''Bind card'',
         metadata = [(''user_id'', Num 7), (''bind_only'', Lit ''1'')],
         receipt_email = Some ''shop@example.org'',
         save_payment_method = True, capture = False, bind_only = True\<rparr>,
      Alert (Get_text ''error_payment_gateway'' [])]"
proof -
  have on: "YOOKASSA_AUTOPAYMENTS_ENABLED bind_env_example"
    by (simp add: bind_env_example_def)
  have r: "case create_payment bind_env_example (bind_request bind_env_example) of
             None \<Rightarrow> True
           | Some r \<Rightarrow> confirmation_url r = None \<or> confirmation_url r = Some []"
    by (simp add: bind_env_example_def)
  have e: "bind_text bind_env_example ''error_payment_gateway'' = Get_text ''error_payment_gateway'' []"
    "bind_request bind_env_example =
       \<lparr>amount_hundredths = 100, currency = ''RUB'', description = ''Bind card'',
         metadata = [(''user_id'', Num 7), (''bind_only'', Lit ''1'')],
         receipt_email = Some ''shop@example.org'',
         save_payment_method = True, capture = False, bind_only = True\<rparr>"
    by (simp_all add: bind_env_example_def bind_text_def bind_request_def)
  from payment_method_bind_request [OF on] r
  have "payment_method_bind bind_env_example =
              [Call_create_payment (bind_request bind_env_example),
               Alert (bind_text bind_env_example ''error_payment_gateway'')]"
    by blast
  then show ?thesis by (simp only: e)
qed

text \<open>
  C8 as stated fails: the deployment is configured with the currency symbol USD, and the
  binding payment is still created in RUB.
\<close>

theorem payment_method_bind_currency_counterexample:
  "YOOKASSA_AUTOPAYMENTS_ENABLED bind_env_example
   \<and> DEFAULT_CURRENCY_SYMBOL bind_env_example = ''USD''
   \<and> hd (payment_method_bind bind_env_example) =
       Call_create_payment (bind_request bind_env_example)
   \<and> currency (bind_request bind_env_example) = ''RUB''
   \<and> currency (bind_request bind_env_example) \<noteq> DEFAULT_CURRENCY_SYMBOL bind_env_example"
  by (simp add: payment_method_bind_def bind_request_def bind_env_example_def)

section \<open>Required-channel gate: results\<close>

text \<open>
  Claim C6, as amended. The caller is not an administrator, a channel is required, the
  bot is reachable from the event (it is a message, or a callback that carries its
  message) and the user's record holds a verification for the required channel. If the
  recorded result is true, the gate returns true at once: no query of the messaging
  platform, no write. If it is not true, the gate does not return it: it asks the
  platform for the membership again.
\<close>

theorem gate_cached_verification:
  assumes req: "REQUIRED_CHANNEL_ID env = Some c \<and> c \<noteq> 0"
    and bot: "event_is_callback env \<longrightarrow> event_has_message env"
    and nonadmin: "from_user_id env \<notin> set (ADMIN_IDS env)"
    and vfor: "channel_subscription_verified_for u = Some c"
  shows "(channel_subscription_verified u = Some True \<longrightarrow>
            ensure_required_channel_subscription env (Some u) s = (True, s, []))
       \<and> (channel_subscription_verified u \<noteq> Some True \<longrightarrow>
            hd (snd (snd (ensure_required_channel_subscription env (Some u) s)))
              = Call_get_chat_member c (from_user_id env))"
  using req bot nonadmin vfor
  by (auto simp: ensure_required_channel_subscription_def Let_def split: member_outcome.splits)

text \<open>Evaluation of the gate on literals.\<close>

lemmas gate_eval =
  ensure_required_channel_subscription_def verify_channel_subscription_callback_def
  channel_prompt_def translate_def allowed_statuses_def gate_menu_def get_user_by_id_def
  update_user_def send_main_menu_def main_menu_text_def
  user_row_example_def gate_env_example_def gate_session_example_def empty_session_example_def
  Let_def

text \<open>The theorem of C6 at a record that says "member" and at one that says "not a member".\<close>

theorem gate_cached_verification_witness:
  "ensure_required_channel_subscription gate_env_example
       (Some (user_row_example\<lparr>channel_subscription_verified := Some True\<rparr>)) gate_session_example
     = (True, gate_session_example, [])
   \<and> hd (snd (snd (ensure_required_channel_subscription gate_env_example
                      (Some user_row_example) gate_session_example)))
     = Call_get_chat_member (- 1001) 7"
proof -
  have req: "REQUIRED_CHANNEL_ID gate_env_example = Some (- 1001) \<and> (- 1001 :: int) \<noteq> 0"
    by (simp add: gate_env_example_def)
  have bot: "event_is_callback gate_env_example \<longrightarrow> event_has_message gate_env_example"
    by (simp add: gate_env_example_def)
  have nonadmin: "from_user_id gate_env_example \<notin> set (ADMIN_IDS gate_env_example)"
    by (simp add: gate_env_example_def)
  have f1: "channel_subscription_verified_for
              (user_row_example\<lparr>channel_subscription_verified := Some True\<rparr>) = Some (- 1001)"
    and f2: "channel_subscription_verified_for user_row_example = Some (- 1001)"
    by (simp_all add: user_row_example_def)
  have v: "channel_subscription_verified user_row_example \<noteq> Some True"
    "from_user_id gate_env_example = 7"
    by (simp_all add: user_row_example_def gate_env_example_def)
  show ?thesis
    using gate_cached_verification [OF req bot nonadmin f1, of gate_session_example]
      gate_cached_verification [OF req bot nonadmin f2, of gate_session_example] v
    by simp
qed

text \<open>
  C6 as stated fails for a recorded result that is false: the record of user 7 says
  "not a member" for the required channel, the gate queries the platform all the same,
  and returns true because the platform now reports a member.
\<close>

theorem gate_cached_false_counterexample:
  "channel_subscription_verified user_row_example = Some False
   \<and> channel_subscription_verified_for user_row_example = REQUIRED_CHANNEL_ID gate_env_example
   \<and> from_user_id gate_env_example \<notin> set (ADMIN_IDS gate_env_example)
   \<and> fst (ensure_required_channel_subscription gate_env_example
             (Some user_row_example) gate_session_example) = True
   \<and> Call_get_chat_member (- 1001) 7
       \<in> set (snd (snd (ensure_required_channel_subscription gate_env_example
                          (Some user_row_example) gate_session_example)))"
  by (simp add: gate_eval)

text \<open>
  Claim C10, as amended. The caller is not an administrator and has no user record. If
  the bot is reachable from the event (a message, or a callback that carries its message)
  and the lookup of the record does not fail, the gate returns true without querying the
  messaging platform, without a prompt and without a write: its only action is the
  lookup, when a channel is required at all. The \<open>channel_subscription:verify\<close> callback
  of such a caller therefore goes on to the main menu. When a channel is required, the
  gate returns false, with no query of the platform and no prompt, for a callback without
  its message (before any lookup) and when the lookup of the record raises; the verify
  callback then ends without alert and without menu.
\<close>

theorem gate_passes_unregistered:
  assumes nonadmin: "from_user_id env \<notin> set (ADMIN_IDS env)"
    and norec: "get_user_by_id (pending s) (from_user_id env) = None"
  shows "((event_is_callback env \<longrightarrow> event_has_message env) \<and> \<not> get_user_raises env \<longrightarrow>
            ensure_required_channel_subscription env None s =
              (True, s,
               if REQUIRED_CHANNEL_ID env = None \<or> REQUIRED_CHANNEL_ID env = Some 0 then []
               else [Call_get_user_by_id (from_user_id env)])
            \<and> fst (verify_channel_subscription_callback env s) = s
            \<and> (\<exists>pre. snd (verify_channel_subscription_callback env s)
                        = pre @ send_main_menu (gate_menu env s) True
                      \<and> (\<forall>c u. Call_get_chat_member c u \<notin> set pre)
                      \<and> (\<forall>t k. Edit_text t k \<notin> set pre)))
       \<and> (REQUIRED_CHANNEL_ID env = Some c \<and> c \<noteq> 0
            \<and> event_is_callback env \<and> \<not> event_has_message env \<longrightarrow>
            ensure_required_channel_subscription env None s = (False, s, [])
            \<and> verify_channel_subscription_callback env s
                = (s, [Call_get_user_by_id (from_user_id env)]))
       \<and> (REQUIRED_CHANNEL_ID env = Some c \<and> c \<noteq> 0
            \<and> (event_is_callback env \<longrightarrow> event_has_message env) \<and> get_user_raises env \<longrightarrow>
            ensure_required_channel_subscription env None s
                = (False, s, [Call_get_user_by_id (from_user_id env)])
            \<and> verify_channel_subscription_callback env s
                = (s, [Call_get_user_by_id (from_user_id env),
                       Call_get_user_by_id (from_user_id env)]))"
proof (intro conjI impI)
  assume a: "(event_is_callback env \<longrightarrow> event_has_message env) \<and> \<not> get_user_raises env"
  show g: "ensure_required_channel_subscription env None s =
           (True, s,
            if REQUIRED_CHANNEL_ID env = None \<or> REQUIRED_CHANNEL_ID env = Some 0 then []
            else [Call_get_user_by_id (from_user_id env)])"
    using nonadmin norec a
    by (auto simp: ensure_required_channel_subscription_def Let_def split: option.splits)
  show "fst (verify_channel_subscription_callback env s) = s"
    using g norec by (auto simp: verify_channel_subscription_callback_def Let_def)
  show "\<exists>pre. snd (verify_channel_subscription_callback env s)
                   = pre @ send_main_menu (gate_menu env s) True
                 \<and> (\<forall>c u. Call_get_chat_member c u \<notin> set pre)
                 \<and> (\<forall>t k. Edit_text t k \<notin> set pre)"
    using g norec by (auto simp: verify_channel_subscription_callback_def Let_def)
next
  assume a: "REQUIRED_CHANNEL_ID env = Some c \<and> c \<noteq> 0
            \<and> event_is_callback env \<and> \<not> event_has_message env"
  then show g: "ensure_required_channel_subscription env None s = (False, s, [])"
    by (simp add: ensure_required_channel_subscription_def)
  show "verify_channel_subscription_callback env s
          = (s, [Call_get_user_by_id (from_user_id env)])"
    using g norec by (simp add: verify_channel_subscription_callback_def)
next
  assume a: "REQUIRED_CHANNEL_ID env = Some c \<and> c \<noteq> 0
            \<and> (event_is_callback env \<longrightarrow> event_has_message env) \<and> get_user_raises env"
  then show g: "ensure_required_channel_subscription env None s
                = (False, s, [Call_get_user_by_id (from_user_id env)])"
    using nonadmin by (auto simp: ensure_required_channel_subscription_def)
  show "verify_channel_subscription_callback env s
                = (s, [Call_get_user_by_id (from_user_id env),
                       Call_get_user_by_id (from_user_id env)])"
    using g norec by (simp add: verify_channel_subscription_callback_def)
qed

text \<open>
  The theorem of C10 at a caller without a record who presses "verify": with the message
  and a working lookup, without the message, and with a lookup that raises.
\<close>

theorem gate_passes_unregistered_witness:
  "ensure_required_channel_subscription gate_env_example None empty_session_example
     = (True, empty_session_example, [Call_get_user_by_id 7])
   \<and> verify_channel_subscription_callback gate_env_example empty_session_example
     = (empty_session_example,
        [Call_get_user_by_id 7, Call_get_user_by_id 7,
         Alert (Get_text ''channel_subscription_verified_success'' []),
         Edit_text (Get_text ''main_menu_greeting'' [(''user_name'', Quote ''Ann'')])
           (Main_menu_inline_keyboard False),
         Ack])
   \<and> ensure_required_channel_subscription (gate_env_example\<lparr>event_has_message := False\<rparr>)
        None empty_session_example
     = (False, empty_session_example, [])
   \<and> verify_channel_subscription_callback (gate_env_example\<lparr>event_has_message := False\<rparr>)
        empty_session_example
     = (empty_session_example, [Call_get_user_by_id 7])
   \<and> ensure_required_channel_subscription (gate_env_example\<lparr>get_user_raises := True\<rparr>)
        None empty_session_example
     = (False, empty_session_example, [Call_get_user_by_id 7])
   \<and> verify_channel_subscription_callback (gate_env_example\<lparr>get_user_raises := True\<rparr>)
        empty_session_example
     = (empty_session_example, [Call_get_user_by_id 7, Call_get_user_by_id 7])"
proof -
  let ?m = "gate_env_example\<lparr>event_has_message := False\<rparr>"
  let ?r = "gate_env_example\<lparr>get_user_raises := True\<rparr>"
  have nonadmin: "from_user_id gate_env_example \<notin> set (ADMIN_IDS gate_env_example)"
    and nonadmin_m: "from_user_id ?m \<notin> set (ADMIN_IDS ?m)"
    and nonadmin_r: "from_user_id ?r \<notin> set (ADMIN_IDS ?r)"
    by (simp_all add: gate_env_example_def)
  have norec: "get_user_by_id (pending empty_session_example) (from_user_id gate_env_example) = None"
    and norec_m: "get_user_by_id (pending empty_session_example) (from_user_id ?m) = None"
    and norec_r: "get_user_by_id (pending empty_session_example) (from_user_id ?r) = None"
    by (simp_all add: get_user_by_id_def empty_session_example_def Let_def)
  have a: "(event_is_callback gate_env_example \<longrightarrow> event_has_message gate_env_example)
      \<and> \<not> get_user_raises gate_env_example"
    by (simp add: gate_env_example_def)
  have am: "REQUIRED_CHANNEL_ID ?m = Some (- 1001) \<and> (- 1001 :: int) \<noteq> 0
      \<and> event_is_callback ?m \<and> \<not> event_has_message ?m"
    by (simp add: gate_env_example_def)
  have ar: "REQUIRED_CHANNEL_ID ?r = Some (- 1001) \<and> (- 1001 :: int) \<noteq> 0
      \<and> (event_is_callback ?r \<longrightarrow> event_has_message ?r) \<and> get_user_raises ?r"
    by (simp add: gate_env_example_def)
  have e: "REQUIRED_CHANNEL_ID gate_env_example = Some (- 1001)" "from_user_id gate_env_example = 7"
    "from_user_id ?m = 7" "from_user_id ?r = 7"
    by (simp_all add: gate_env_example_def)
  have g: "ensure_required_channel_subscription gate_env_example None empty_session_example
     = (True, empty_session_example, [Call_get_user_by_id 7])"
    using gate_passes_unregistered [OF nonadmin norec, of 0] a by (simp add: e)
  have m: "send_main_menu (gate_menu gate_env_example empty_session_example) True =
       [Edit_text (Get_text ''main_menu_greeting'' [(''user_name'', Quote ''Ann'')])
           (Main_menu_inline_keyboard False), Ack]"
    by (simp add: send_main_menu_def gate_menu_def main_menu_text_def gate_env_example_def)
  have v: "verify_channel_subscription_callback gate_env_example empty_session_example
     = (empty_session_example,
        [Call_get_user_by_id 7, Call_get_user_by_id 7,
         Alert (Get_text ''channel_subscription_verified_success'' [])]
        @ send_main_menu (gate_menu gate_env_example empty_session_example) True)"
    using norec g
    by (simp add: verify_channel_subscription_callback_def Let_def gate_env_example_def)
  have gm: "ensure_required_channel_subscription ?m None empty_session_example
        = (False, empty_session_example, [])
      \<and> verify_channel_subscription_callback ?m empty_session_example
        = (empty_session_example, [Call_get_user_by_id 7])"
    using gate_passes_unregistered [OF nonadmin_m norec_m, of "- 1001"] am
    by (simp add: e)
  have gr: "ensure_required_channel_subscription ?r None empty_session_example
        = (False, empty_session_example, [Call_get_user_by_id 7])
      \<and> verify_channel_subscription_callback ?r empty_session_example
        = (empty_session_example, [Call_get_user_by_id 7, Call_get_user_by_id 7])"
    using gate_passes_unregistered [OF nonadmin_r norec_r, of "- 1001"] ar
    by (simp add: e)
  show ?thesis using g v m gm gr by simp
qed

text \<open>
  C10 as stated fails for a callback that carries no message, and for a lookup that
  raises: the caller is not an administrator and has no record, and the gate returns
  false.
\<close>

theorem gate_unregistered_without_message_counterexample:
  "from_user_id (gate_env_example\<lparr>event_has_message := False\<rparr>)
     \<notin> set (ADMIN_IDS (gate_env_example\<lparr>event_has_message := False\<rparr>))
   \<and> get_user_by_id (pending empty_session_example) 7 = None
   \<and> ensure_required_channel_subscription (gate_env_example\<lparr>event_has_message := False\<rparr>)
       None empty_session_example
     = (False, empty_session_example, [])
   \<and> verify_channel_subscription_callback (gate_env_example\<lparr>event_has_message := False\<rparr>)
       empty_session_example
     = (empty_session_example, [Call_get_user_by_id 7])
   \<and> from_user_id (gate_env_example\<lparr>get_user_raises := True\<rparr>)
     \<notin> set (ADMIN_IDS (gate_env_example\<lparr>get_user_raises := True\<rparr>))
   \<and> ensure_required_channel_subscription (gate_env_example\<lparr>get_user_raises := True\<rparr>)
       None empty_session_example
     = (False, empty_session_example, [Call_get_user_by_id 7])"
  by (simp add: gate_eval)

section \<open>The /start command: results\<close>

definition referrer_of :: "db \<Rightarrow> int \<Rightarrow> int option option" where
  \<comment> \<open>\<open>None\<close>: no record; \<open>Some None\<close>: a record without referrer\<close>
  "referrer_of d uid = map_option referred_by_id (users d uid)"

lemma fold_apply_field_keeps_referrer:
  "\<forall>r. Set_referred_by_id r \<notin> set p \<Longrightarrow> referred_by_id (fold apply_field p u) = referred_by_id u"
proof (induction p arbitrary: u)
  case Nil
  then show ?case by simp
next
  case (Cons a p)
  then have "referred_by_id (apply_field a u) = referred_by_id u"
    by (cases a) auto
  with Cons show ?case by simp
qed

lemma fold_apply_field_referrer_cases:
  "referred_by_id (fold apply_field p u) = referred_by_id u
   \<or> (\<exists>r. Set_referred_by_id r \<in> set p \<and> referred_by_id (fold apply_field p u) = Some r)"
proof (induction p arbitrary: u)
  case Nil
  then show ?case by simp
next
  case (Cons a p)
  have step: "referred_by_id (apply_field a u) = referred_by_id u
     \<or> (\<exists>r. a = Set_referred_by_id r \<and> referred_by_id (apply_field a u) = Some r)"
    by (cases a) auto
  from Cons.IH [of "apply_field a u"] step show ?case
    by (cases a) auto
qed

lemma update_payload_referrer:
  "Set_referred_by_id r \<in> set (update_payload env d referred u) \<longleftrightarrow>
     referred = Some r \<and> wants_referral referred u
     \<and> has_active_subscription env d (from_user_id (gate env)) \<noteq> Some True"
  by (auto simp: update_payload_def split: option.splits if_splits)


lemma register_known_referrer:
  assumes "get_user_by_id (pending s) (from_user_id (gate env)) = Some u"
    and "referred_by_id u = Some r0"
  shows "fst (register_or_update env referred s)
       \<and> committed (fst (snd (register_or_update env referred s))) = committed s
       \<and> referrer_of (pending (fst (snd (register_or_update env referred s))))
           (from_user_id (gate env)) = Some (Some r0)"
proof -
  have no: "\<forall>r. Set_referred_by_id r \<notin> set (update_payload env (pending s) referred u)"
    using assms(2) by (simp add: update_payload_referrer wants_referral_def)
  have keep: "referred_by_id (fold apply_field (update_payload env (pending s) referred u) u)
                = Some r0"
    using fold_apply_field_keeps_referrer [OF no] assms(2) by simp
  show ?thesis
    using assms keep
    by (simp add: register_or_update_def Let_def referrer_of_def update_user_def
        get_user_by_id_def)
qed






lemma ascii_digit_alnum: "ascii_digit c \<Longrightarrow> ascii_alnum c"
  by (auto simp: ascii_alnum_def ascii_digit_def)


lemma ascii_alnum_code: "ascii_alnum c \<Longrightarrow> (of_char c :: nat) < 128"
  unfolding ascii_alnum_def by (elim disjE | simp)+

lemma isdigit_alnum_digit: "py_isdigit c \<Longrightarrow> ascii_alnum c \<Longrightarrow> ascii_digit c"
  using ascii_alnum_code [of c] by (auto simp: py_isdigit_def ascii_digit_def)

lemma ascii_alnum_not_space: "ascii_alnum c \<Longrightarrow> \<not> py_isspace c"
  unfolding ascii_alnum_def py_isspace_def by (elim disjE | simp)+

lemma ref_token_alnum:
  assumes "ref_token g"
  shows "list_all ascii_alnum g"
proof -
  consider
    (a) c cs where "g = c # cs" "c = CHR ''u'' \<or> c = CHR ''U''" "list_all ascii_alnum cs"
    | (b) "list_all ascii_alnum g"
    | (c) "list_all ascii_digit g"
    using assms by (auto simp: ref_token_def split: list.splits)
  then show ?thesis
  proof cases
    case a
    have "ascii_alnum (CHR ''u'')" "ascii_alnum (CHR ''U'')"
      by (simp_all add: ascii_alnum_def)
    then show ?thesis using a by auto
  next
    case b
    then show ?thesis .
  next
    case c
    then show ?thesis
      using ascii_digit_alnum by (auto simp: list_all_iff)
  qed
qed

lemma parse_ref_token: "parse_start_args args = Ref g \<Longrightarrow> ref_token g"
  by (auto simp: parse_start_args_def before_dollar_def split: option.splits if_splits)


lemma parse_digits_digits:
  "list_all ascii_digit s \<Longrightarrow> s \<noteq> [] \<or> prev \<Longrightarrow> \<exists>n. parse_digits s acc prev = Some n"
proof (induction s arbitrary: acc prev)
  case Nil
  then show ?case by simp
next
  case (Cons c s)
  then have c: "c \<in> set ''0123456789''" by (simp add: ascii_digit_def)
  have "\<exists>n. parse_digits s (10 * acc + (int (of_char c) - 48)) True = Some n"
    using Cons by simp
  then show ?case using c by simp
qed

lemma int_strip_no_space:
  assumes "list_all (\<lambda>c. \<not> int_isspace c) s"
  shows "int_strip s = s"
proof (cases s rule: rev_cases)
  case Nil
  then show ?thesis by (simp add: int_strip_def)
next
  case (snoc xs x)
  then have l: "\<not> int_isspace x" using assms by simp
  have h: "dropWhile int_isspace s = s"
    using assms by (cases s) auto
  show ?thesis
    using h l snoc by (simp add: int_strip_def)
qed

lemma int_isspace_isspace: "int_isspace c \<Longrightarrow> py_isspace c"
  by (auto simp: int_isspace_def py_isspace_def)

lemma ref_token_int_strip: "ref_token g \<Longrightarrow> int_strip g = g"
  using ref_token_alnum [of g] ascii_alnum_not_space int_isspace_isspace
  by (intro int_strip_no_space) (auto simp: list_all_iff)

lemma route_digits_parse:
  assumes "parse_start_args args = Ref raw" and "str_isdigit raw"
  shows "\<exists>pid. py_int raw = Some pid"
proof -
  have tok: "ref_token raw" using assms(1) by (rule parse_ref_token)
  have al: "list_all ascii_alnum raw" using tok by (rule ref_token_alnum)
  have dg: "list_all ascii_digit raw"
    using al assms(2) isdigit_alnum_digit
    by (auto simp: list_all_iff str_isdigit_def)
  obtain c cs where raw: "raw = c # cs"
    using assms(2) by (cases raw) (auto simp: str_isdigit_def)
  have c: "c \<noteq> CHR ''-'' \<and> c \<noteq> CHR ''+''"
    using dg raw by (auto simp: ascii_digit_def)
  obtain n where "parse_digits raw 0 False = Some n"
    using parse_digits_digits [OF dg, of False 0] raw by auto
  then show ?thesis
    using c raw ref_token_int_strip [OF tok] by (simp add: py_int_def)
qed



















end
